theory Spec2Isabelle
  imports Main "HOL-Library.Word"
begin

unbundle bit_operations_syntax

section \<open>Common data\<close>

text \<open>A Node \<open>Buffer\<close> is a list of bytes. Everything the JavaScript throws is an
  error object with a message, of class \<open>Error\<close> or of one of its subclasses:
  \<open>TypeError\<close> is what the runtime throws on a property read of \<open>null\<close> or
  \<open>undefined\<close> and on an argument of the wrong kind, \<open>RangeError\<close> on an argument
  out of range.\<close>

type_synonym byte = "8 word"

datatype js_error = Error string | TypeError string | RangeError string

fun message :: "js_error \<Rightarrow> string" where
  "message (Error m) = m"
| "message (TypeError m) = m"
| "message (RangeError m) = m"



text \<open>The own properties of a JavaScript object, and the entries of a \<open>Map\<close>, keep
  their insertion order: setting a key that is present replaces the value where it stands,
  setting a new key appends.\<close>

fun map_set :: "'k \<Rightarrow> 'v \<Rightarrow> ('k \<times> 'v) list \<Rightarrow> ('k \<times> 'v) list" where
  "map_set k v [] = [(k, v)]"
| "map_set k v ((k', v') # m) = (if k' = k then (k, v) # m else (k', v') # map_set k v m)"

fun decimal :: "nat \<Rightarrow> string" where
  "decimal n =
     (if n < 10 then [''0123456789'' ! n]
      else decimal (n div 10) @ [''0123456789'' ! (n mod 10)])"

declare decimal.simps [simp del]

definition hex_digit :: "nat \<Rightarrow> char" where
  "hex_digit n = ''0123456789abcdef'' ! (n mod 16)"

definition to_hex :: "byte list \<Rightarrow> string" where
  "to_hex bs = concat (map (\<lambda>b. [hex_digit (unat b div 16), hex_digit (unat b mod 16)]) bs)"

definition startsWith :: "string \<Rightarrow> string \<Rightarrow> bool" where
  "startsWith s p = (take (length p) s = p)"

section \<open>Content address resolver (src/encryption/index.js, hashToCid)\<close>

definition hex_val :: "char \<Rightarrow> nat option" where
  "hex_val c =
     (let n = of_char c :: nat in
      if 48 \<le> n \<and> n \<le> 57 then Some (n - 48)
      else if 97 \<le> n \<and> n \<le> 102 then Some (n - 87)
      else if 65 \<le> n \<and> n \<le> 70 then Some (n - 55)
      else None)"

text \<open>\<open>Buffer.from(s, 'hex')\<close>: two hex digits per byte; decoding stops at the first
  pair that is not hexadecimal, and a trailing single character is dropped.\<close>

fun buffer_from_hex :: "string \<Rightarrow> byte list" where
  "buffer_from_hex (a # b # cs) =
     (case (hex_val a, hex_val b) of
        (Some h, Some l) \<Rightarrow> of_nat (16 * h + l) # buffer_from_hex cs
      | _ \<Rightarrow> [])"
| "buffer_from_hex _ = []"

text \<open>The unsigned LEB128 varint of the multihash header.\<close>

fun varint :: "nat \<Rightarrow> byte list" where
  "varint n = (if n < 128 then [of_nat n] else of_nat (128 + n mod 128) # varint (n div 128))"

declare varint.simps [simp del]

text \<open>\<open>multihash.encode(digest, 'sha2-256')\<close>: function code \<open>0x12\<close>, the digest's own
  length, then the digest. With the length argument omitted the library takes the length
  of the digest, so it accepts a buffer of any length.\<close>

definition sha2_256_code :: nat where
  "sha2_256_code = 18"

definition multihash_encode :: "byte list \<Rightarrow> byte list" where
  "multihash_encode digest = varint sha2_256_code @ varint (length digest) @ digest"

definition nat_of_bytes :: "byte list \<Rightarrow> nat" where
  "nat_of_bytes bs = foldl (\<lambda>acc b. 256 * acc + unat b) 0 bs"

fun digits58 :: "nat \<Rightarrow> nat list" where
  "digits58 n = (if n = 0 then [] else digits58 (n div 58) @ [n mod 58])"

declare digits58.simps [simp del]

definition bs58_alphabet :: string where
  "bs58_alphabet = ''123456789ABCDEFGHJKLMNPQRSTUVWXYZabcdefghijkmnopqrstuvwxyz''"

text \<open>\<open>bs58.encode\<close>: one \<open>1\<close> per leading zero byte, then the big-endian base-58
  digits of the number the bytes spell.\<close>

definition bs58_encode :: "byte list \<Rightarrow> string" where
  "bs58_encode bs =
     replicate (length (takeWhile (\<lambda>b. b = 0) bs)) (CHR ''1'')
     @ map (\<lambda>d. bs58_alphabet ! d) (digits58 (nat_of_bytes bs))"

text \<open>\<open>hashToCid\<close>. The body sits in a \<open>try\<close> whose handler rethrows as
  \<open>Error('Failed to convert hash to CID: ...')\<close>; on a string argument none of the calls
  in the body throws, so every result is \<open>Inr\<close>.\<close>

definition hashToCid :: "string \<Rightarrow> js_error + string" where
  "hashToCid hash =
     (let cleanHash = (if startsWith hash ''0x'' then drop 2 hash else hash) in
      if startsWith cleanHash ''Qm'' then Inr cleanHash
      else
        let hashBytes = buffer_from_hex cleanHash;
            multihashBytes = multihash_encode hashBytes
        in Inr (bs58_encode multihashBytes))"


section \<open>JavaScript strings and UTF-8 (what \<open>cipher.update(data, 'utf8')\<close> and
  \<open>Buffer.toString('utf8')\<close> do)\<close>

text \<open>A JavaScript string is a sequence of 16-bit code units. Identifiers that the code
  only ever builds from ASCII (hex strings, locators, URLs, messages of errors) are kept as
  \<open>string\<close>; text whose encoding matters (plaintext, job content) is a \<open>jsstring\<close>.\<close>

type_synonym jsstring = "16 word list"

definition js :: "string \<Rightarrow> jsstring" where
  "js s = map (\<lambda>c. of_nat (of_char c)) s"

definition is_high_surrogate :: "nat \<Rightarrow> bool" where
  "is_high_surrogate c = (55296 \<le> c \<and> c < 56320)"

definition is_low_surrogate :: "nat \<Rightarrow> bool" where
  "is_low_surrogate c = (56320 \<le> c \<and> c < 57344)"

definition utf8_bytes :: "nat \<Rightarrow> byte list" where
  "utf8_bytes c =
     (if c < 128 then [of_nat c]
      else if c < 2048 then [of_nat (192 + c div 64), of_nat (128 + c mod 64)]
      else if c < 65536 then
        [of_nat (224 + c div 4096), of_nat (128 + c div 64 mod 64), of_nat (128 + c mod 64)]
      else
        [of_nat (240 + c div 262144), of_nat (128 + c div 4096 mod 64),
         of_nat (128 + c div 64 mod 64), of_nat (128 + c mod 64)])"

text \<open>Encoding a string as UTF-8: a surrogate pair is one code point of four bytes; a
  surrogate without its partner is written as U+FFFD (\<open>EF BF BD\<close>).\<close>

fun utf8_encode :: "jsstring \<Rightarrow> byte list" where
  "utf8_encode [] = []"
| "utf8_encode [u] =
     (if is_high_surrogate (unat u) \<or> is_low_surrogate (unat u) then utf8_bytes 65533
      else utf8_bytes (unat u))"
| "utf8_encode (u # v # us) =
     (if is_high_surrogate (unat u) then
        (if is_low_surrogate (unat v)
         then utf8_bytes (65536 + (unat u - 55296) * 1024 + (unat v - 56320)) @ utf8_encode us
         else utf8_bytes 65533 @ utf8_encode (v # us))
      else if is_low_surrogate (unat u) then utf8_bytes 65533 @ utf8_encode (v # us)
      else utf8_bytes (unat u) @ utf8_encode (v # us))"

definition in_range :: "nat \<Rightarrow> nat \<Rightarrow> byte \<Rightarrow> bool" where
  "in_range lo hi b = (lo \<le> unat b \<and> unat b \<le> hi)"

definition trail :: "byte \<Rightarrow> nat" where
  "trail b = unat b - 128"

text \<open>The first code point of a byte sequence and the number of bytes it takes. An
  ill-formed sequence gives U+FFFD for its longest prefix that starts a well-formed
  sequence (at least one byte), as the decoder behind \<open>toString('utf8')\<close> does.\<close>

definition utf8_next :: "byte \<Rightarrow> byte list \<Rightarrow> nat \<times> nat" where
  "utf8_next b0 bs =
     (let n0 = unat b0 in
      if n0 < 128 then (n0, 1)
      else if 194 \<le> n0 \<and> n0 \<le> 223 then
        (case bs of
           b1 # _ \<Rightarrow>
             if in_range 128 191 b1 then ((n0 - 192) * 64 + trail b1, 2) else (65533, 1)
         | [] \<Rightarrow> (65533, 1))
      else if 224 \<le> n0 \<and> n0 \<le> 239 then
        (case bs of
           b1 # r1 \<Rightarrow>
             if in_range (if n0 = 224 then 160 else 128) (if n0 = 237 then 159 else 191) b1 then
               (case r1 of
                  b2 # _ \<Rightarrow>
                    if in_range 128 191 b2
                    then ((n0 - 224) * 4096 + trail b1 * 64 + trail b2, 3)
                    else (65533, 2)
                | [] \<Rightarrow> (65533, 2))
             else (65533, 1)
         | [] \<Rightarrow> (65533, 1))
      else if 240 \<le> n0 \<and> n0 \<le> 244 then
        (case bs of
           b1 # r1 \<Rightarrow>
             if in_range (if n0 = 240 then 144 else 128) (if n0 = 244 then 143 else 191) b1 then
               (case r1 of
                  b2 # r2 \<Rightarrow>
                    if in_range 128 191 b2 then
                      (case r2 of
                         b3 # _ \<Rightarrow>
                           if in_range 128 191 b3
                           then ((n0 - 240) * 262144 + trail b1 * 4096 + trail b2 * 64 + trail b3, 4)
                           else (65533, 3)
                       | [] \<Rightarrow> (65533, 3))
                    else (65533, 2)
                | [] \<Rightarrow> (65533, 2))
             else (65533, 1)
         | [] \<Rightarrow> (65533, 1))
      else (65533, 1))"

definition code_units :: "nat \<Rightarrow> jsstring" where
  "code_units c =
     (if c < 65536 then [of_nat c]
      else [of_nat (55296 + (c - 65536) div 1024), of_nat (56320 + (c - 65536) mod 1024)])"

fun utf8_decode :: "byte list \<Rightarrow> jsstring" where
  "utf8_decode [] = []"
| "utf8_decode (b # bs) =
     code_units (fst (utf8_next b bs)) @ utf8_decode (drop (snd (utf8_next b bs) - 1) bs)"

text \<open>A string without unpaired surrogates.\<close>

fun well_formed :: "jsstring \<Rightarrow> bool" where
  "well_formed [] = True"
| "well_formed [u] = (\<not> is_high_surrogate (unat u) \<and> \<not> is_low_surrogate (unat u))"
| "well_formed (u # v # us) =
     (if is_high_surrogate (unat u) then is_low_surrogate (unat v) \<and> well_formed us
      else \<not> is_low_surrogate (unat u) \<and> well_formed (v # us))"

text \<open>A Unicode scalar value: a code point that is not a surrogate.\<close>

definition scalar :: "nat \<Rightarrow> bool" where
  "scalar c = (c < 1114112 \<and> \<not> is_high_surrogate c \<and> \<not> is_low_surrogate c)"


section \<open>AEAD codec (src/encryption/index.js, encryptUtf8Data and decryptToUtf8)\<close>

text \<open>AES-256-GCM belongs to the runtime's \<open>crypto\<close> module, so it is a parameter. Only
  its shape is fixed: GCM is a counter mode, byte \<open>i\<close> of the ciphertext is byte \<open>i\<close> of
  the plaintext XOR byte \<open>i\<close> of a key stream given by key and IV; the authentication tag
  is a 128-bit value given by key, IV and ciphertext.\<close>

record gcm =
  keystream :: "byte list \<Rightarrow> byte list \<Rightarrow> nat \<Rightarrow> byte"
  gcm_tag :: "byte list \<Rightarrow> byte list \<Rightarrow> byte list \<Rightarrow> 128 word"

definition gcm_crypt :: "gcm \<Rightarrow> byte list \<Rightarrow> byte list \<Rightarrow> byte list \<Rightarrow> byte list" where
  "gcm_crypt g key iv bs = map (\<lambda>(i, b). b XOR keystream g key iv i) (zip [0..<length bs] bs)"

definition tag_bytes :: "128 word \<Rightarrow> byte list" where
  "tag_bytes t = map (\<lambda>i. ucast (drop_bit (8 * (15 - i)) t)) [0..<16]"

text \<open>\<open>cipher.getAuthTag()\<close>: the 16 bytes of the tag.\<close>

definition getAuthTag :: "gcm \<Rightarrow> byte list \<Rightarrow> byte list \<Rightarrow> byte list \<Rightarrow> byte list" where
  "getAuthTag g key iv encrypted = tag_bytes (gcm_tag g key iv encrypted)"

text \<open>\<open>randomBytes(n)\<close>: the first \<open>n\<close> bytes of the random source.\<close>

definition randomBytes :: "(nat \<Rightarrow> byte) \<Rightarrow> nat \<Rightarrow> byte list" where
  "randomBytes rnd n = map rnd [0..<n]"

text \<open>\<open>createCipheriv\<close> and \<open>createDecipheriv\<close> with \<open>'aes-256-gcm'\<close> throw a
  \<open>TypeError\<close> when the IV is empty and a \<open>RangeError\<close> when the key does not have
  32 bytes; the IV is looked at first.\<close>

definition createCipheriv :: "byte list \<Rightarrow> byte list \<Rightarrow> js_error + unit" where
  "createCipheriv keyBuffer iv =
     (if iv = [] then Inl (TypeError ''Invalid initialization vector'')
      else if length keyBuffer \<noteq> 32 then Inl (RangeError ''Invalid key length'')
      else Inr ())"

definition encryptUtf8Data :: "gcm \<Rightarrow> (nat \<Rightarrow> byte) \<Rightarrow> jsstring \<Rightarrow> string \<Rightarrow> js_error + byte list" where
  "encryptUtf8Data g rnd data key =
     (let keyBuffer = buffer_from_hex (take 64 key);
          iv = randomBytes rnd 16
      in case createCipheriv keyBuffer iv of
           Inl e \<Rightarrow> Inl e
         | Inr _ \<Rightarrow>
             let encrypted = gcm_crypt g keyBuffer iv (utf8_encode data);
                 authTag = getAuthTag g keyBuffer iv encrypted
             in Inr (iv @ authTag @ encrypted))"

text \<open>\<open>decipher.setAuthTag\<close> accepts a GCM tag of 4, 8 or 12 to 16 bytes and throws a
  \<open>TypeError\<close> on any other length.\<close>

definition setAuthTag :: "byte list \<Rightarrow> js_error + unit" where
  "setAuthTag authTag =
     (if length authTag \<in> {4, 8, 12, 13, 14, 15, 16} then Inr ()
      else Inl (TypeError (''Invalid authentication tag length: '' @ decimal (length authTag))))"

text \<open>\<open>decipher.update\<close> hands out the bytes it has decrypted; \<open>decipher.final\<close>
  compares the tag that was set with the tag of what it was given, adds nothing for GCM,
  and throws when the two differ. What it throws is a plain \<open>Error\<close>: the code defines
  no error class of its own.\<close>

definition decipher_update :: "gcm \<Rightarrow> byte list \<Rightarrow> byte list \<Rightarrow> byte list \<Rightarrow> byte list" where
  "decipher_update g keyBuffer iv encrypted = gcm_crypt g keyBuffer iv encrypted"

definition decipher_final :: "gcm \<Rightarrow> byte list \<Rightarrow> byte list \<Rightarrow> byte list \<Rightarrow> byte list \<Rightarrow> js_error + byte list" where
  "decipher_final g keyBuffer iv authTag encrypted =
     (if take (length authTag) (getAuthTag g keyBuffer iv encrypted) = authTag then Inr []
      else Inl (Error ''Unsupported state or unable to authenticate data''))"

definition decryptToUtf8 :: "gcm \<Rightarrow> byte list \<Rightarrow> string \<Rightarrow> js_error + jsstring" where
  "decryptToUtf8 g encryptedData key =
     (let keyBuffer = buffer_from_hex (take 64 key);
          iv = take 16 encryptedData;
          authTag = take 16 (drop 16 encryptedData);
          encrypted = drop 32 encryptedData
      in case createCipheriv keyBuffer iv of
           Inl e \<Rightarrow> Inl e
         | Inr _ \<Rightarrow>
             (case setAuthTag authTag of
                Inl e \<Rightarrow> Inl e
              | Inr _ \<Rightarrow>
                  let updated = decipher_update g keyBuffer iv encrypted in
                  (case decipher_final g keyBuffer iv authTag encrypted of
                     Inl e \<Rightarrow> Inl e
                   | Inr final \<Rightarrow> Inr (utf8_decode (updated @ final)))))"

text \<open>A small instance of the two parameters, to run the definitions on concrete inputs.
  It has the shape of GCM and none of its strength.\<close>

definition sample_gcm :: gcm where
  "sample_gcm = \<lparr> keystream = (\<lambda>key iv i. of_nat (7 * i + length key + length iv)),
                   gcm_tag = (\<lambda>key iv encrypted.
                      foldl (\<lambda>acc b. acc * 31 + ucast b) (of_nat (length key + length iv))
                        encrypted) \<rparr>"

definition sample_rnd :: "nat \<Rightarrow> byte" where
  "sample_rnd i = of_nat (17 * i + 3)"


text \<open>Sealing a plaintext and opening the envelope with the same key.\<close>

definition seal_then_open :: "gcm \<Rightarrow> (nat \<Rightarrow> byte) \<Rightarrow> jsstring \<Rightarrow> string \<Rightarrow> js_error + jsstring" where
  "seal_then_open g rnd data key =
     (case encryptUtf8Data g rnd data key of
        Inl e \<Rightarrow> Inl e
      | Inr envelope \<Rightarrow> decryptToUtf8 g envelope key)"

definition sample_key :: string where
  "sample_key = ''000102030405060708090a0b0c0d0e0f101112131415161718191a1b1c1d1e1f''"


section \<open>Gateway fetcher (src/encryption/index.js, getFromIpfs)\<close>

subsection \<open>Base64\<close>

definition base64_alphabet :: string where
  "base64_alphabet = ''ABCDEFGHIJKLMNOPQRSTUVWXYZabcdefghijklmnopqrstuvwxyz0123456789+/''"

text \<open>\<open>buffer.toString('base64')\<close>: three bytes give four characters, the last group is
  padded with \<open>=\<close>.\<close>

fun buffer_to_base64 :: "byte list \<Rightarrow> string" where
  "buffer_to_base64 (a # b # c # rest) =
     (let n = 65536 * unat a + 256 * unat b + unat c in
      [base64_alphabet ! (n div 262144), base64_alphabet ! (n div 4096 mod 64),
       base64_alphabet ! (n div 64 mod 64), base64_alphabet ! (n mod 64)]
      @ buffer_to_base64 rest)"
| "buffer_to_base64 [a, b] =
     (let n = 65536 * unat a + 256 * unat b in
      [base64_alphabet ! (n div 262144), base64_alphabet ! (n div 4096 mod 64),
       base64_alphabet ! (n div 64 mod 64), CHR ''=''])"
| "buffer_to_base64 [a] =
     (let n = 65536 * unat a in
      [base64_alphabet ! (n div 262144), base64_alphabet ! (n div 4096 mod 64),
       CHR ''='', CHR ''=''])"
| "buffer_to_base64 [] = []"

text \<open>\<open>Buffer.from(s, 'base64')\<close> never throws: it reads up to the first \<open>=\<close>, skips
  every character that is not of the alphabet (the URL-safe \<open>-\<close> and \<open>_\<close> count as
  \<open>+\<close> and \<open>/\<close>), and turns each group of four characters into three bytes; two or
  three characters left over give one or two bytes.\<close>

definition sextet :: "16 word \<Rightarrow> nat option" where
  "sextet u =
     (let n = unat u in
      if 65 \<le> n \<and> n \<le> 90 then Some (n - 65)
      else if 97 \<le> n \<and> n \<le> 122 then Some (n - 71)
      else if 48 \<le> n \<and> n \<le> 57 then Some (n + 4)
      else if n = 43 \<or> n = 45 then Some 62
      else if n = 47 \<or> n = 95 then Some 63
      else None)"

fun bytes_of_sextets :: "nat list \<Rightarrow> byte list" where
  "bytes_of_sextets (a # b # c # d # rest) =
     [of_nat (4 * a + b div 16), of_nat (16 * (b mod 16) + c div 4), of_nat (64 * (c mod 4) + d)]
     @ bytes_of_sextets rest"
| "bytes_of_sextets [a, b, c] = [of_nat (4 * a + b div 16), of_nat (16 * (b mod 16) + c div 4)]"
| "bytes_of_sextets [a, b] = [of_nat (4 * a + b div 16)]"
| "bytes_of_sextets rest = []"

definition buffer_from_base64 :: "jsstring \<Rightarrow> byte list" where
  "buffer_from_base64 s =
     bytes_of_sextets (concat (map (\<lambda>u. case sextet u of None \<Rightarrow> [] | Some n \<Rightarrow> [n])
                                 (takeWhile (\<lambda>u. u \<noteq> 61) s)))"

subsection \<open>The loop over the gateways\<close>

text \<open>\<open>axios.get(url, {timeout})\<close> is the network: the answer to the \<open>n\<close>-th request of
  one call of \<open>getFromIpfs\<close>, made to \<open>url\<close>, is either the response body or the error
  thrown (a timeout, a transport error). The same URL may answer differently the second
  time it is asked.\<close>

type_synonym network = "nat \<Rightarrow> string \<Rightarrow> js_error + jsstring"

text \<open>A request is made against the log of the requests made before it, and adds its URL
  to that log: no request goes unrecorded.\<close>

definition request :: "network \<Rightarrow> string list \<Rightarrow> string \<Rightarrow> (js_error + jsstring) \<times> string list" where
  "request net log url = (net (length log) url, log @ [url])"

text \<open>The body of the \<open>try\<close> inside the loop: the request, then the decoding of the
  response when a key was given. Whatever either of them throws lands in the same
  \<open>catch\<close>.\<close>

definition gateway_attempt ::
    "network \<Rightarrow> (jsstring \<Rightarrow> js_error + jsstring) \<Rightarrow> string \<Rightarrow> string list \<Rightarrow> string
      \<Rightarrow> (js_error + jsstring) \<times> string list" where
  "gateway_attempt net decode cid log gateway =
     (case request net log (gateway @ cid) of
        (Inl e, log') \<Rightarrow> (Inl e, log')
      | (Inr content, log') \<Rightarrow> (decode content, log'))"

text \<open>The loop over the gateways. After the loop the code throws
  \<open>new Error(`Failed to retrieve from all IPFS gateways: ${lastError.message}`)\<close>; with no
  gateway at all \<open>lastError\<close> is still \<open>null\<close> and reading its message is a
  \<open>TypeError\<close>. The second component of the result is the log of the requests made.\<close>

fun getFromIpfs_loop ::
    "network \<Rightarrow> (jsstring \<Rightarrow> js_error + jsstring) \<Rightarrow> string \<Rightarrow> string list \<Rightarrow> string list
      \<Rightarrow> js_error option \<Rightarrow> (js_error + jsstring) \<times> string list" where
  "getFromIpfs_loop net decode cid log [] lastError =
     (case lastError of
        None \<Rightarrow> (Inl (TypeError ''Cannot read properties of null (reading 'message')''), log)
      | Some e \<Rightarrow>
          (Inl (Error (''Failed to retrieve from all IPFS gateways: '' @ message e)), log))"
| "getFromIpfs_loop net decode cid log (gateway # gateways) lastError =
     (case gateway_attempt net decode cid log gateway of
        (Inr content, log') \<Rightarrow> (Inr content, log')
      | (Inl error, log') \<Rightarrow> getFromIpfs_loop net decode cid log' gateways (Some error))"

text \<open>\<open>if (decryptionKey)\<close>: a key that is \<open>null\<close> or empty leaves the content as it
  came; otherwise the content is base64 of an envelope.\<close>

definition decode_content :: "gcm \<Rightarrow> string option \<Rightarrow> jsstring \<Rightarrow> js_error + jsstring" where
  "decode_content g decryptionKey content =
     (case decryptionKey of
        None \<Rightarrow> Inr content
      | Some key \<Rightarrow>
          if key = [] then Inr content
          else decryptToUtf8 g (buffer_from_base64 content) key)"

definition getFromIpfs ::
    "gcm \<Rightarrow> network \<Rightarrow> string list \<Rightarrow> string \<Rightarrow> string option
      \<Rightarrow> (js_error + jsstring) \<times> string list" where
  "getFromIpfs g net ipfsGateways cid decryptionKey =
     getFromIpfs_loop net (decode_content g decryptionKey) cid [] ipfsGateways None"

text \<open>The outcome of the attempt at position \<open>i\<close> of the gateway list: the answer to
  request number \<open>i\<close>, made to gateway \<open>i\<close>, decoded.\<close>

definition attempt ::
    "gcm \<Rightarrow> network \<Rightarrow> string list \<Rightarrow> string \<Rightarrow> string option \<Rightarrow> nat \<Rightarrow> js_error + jsstring" where
  "attempt g net ipfsGateways cid decryptionKey i =
     (case net i (ipfsGateways ! i @ cid) of
        Inl e \<Rightarrow> Inl e
      | Inr content \<Rightarrow> decode_content g decryptionKey content)"

text \<open>The gateway list of the configuration (src/config.js, loadConfig): the configured
  gateway first, then four fixed ones.\<close>

definition config_ipfsGateways :: "string \<Rightarrow> string list" where
  "config_ipfsGateways ipfsGatewayUrl =
     [ipfsGatewayUrl, ''https://gateway.pinata.cloud/ipfs/'', ''https://cloudflare-ipfs.com/ipfs/'',
      ''https://dweb.link/ipfs/'', ''https://ipfs.io/ipfs/'']"

text \<open>Three sample networks: one whose first two requests time out and whose third is
  answered, one that never answers, and one on which every gateway answers with the same
  text.\<close>

definition sample_net :: network where
  "sample_net n url = (if n < 2 then Inl (Error ''timeout of 10000ms exceeded'') else Inr (js ''ok''))"

definition dead_net :: network where
  "dead_net n url = Inl (Error ''timeout of 10000ms exceeded'')"

definition answering_net :: "string \<Rightarrow> network" where
  "answering_net body n url = Inr (js body)"

definition sample_gateways :: "string list" where
  "sample_gateways = config_ipfsGateways ''https://gw.example/ipfs/''"


section \<open>Keccak-256 (what \<open>ethers.keccak256\<close> computes)\<close>

text \<open>The library function, written out so that the publish path can be run on a concrete
  locator: the Keccak-f[1600] permutation on 25 lanes of 64 bits (lane \<open>(x, y)\<close> at
  index \<open>x + 5 * y\<close>), rate 136 bytes, padding \<open>0x01 .. 0x80\<close>, 32 bytes of output.\<close>

type_synonym lane = "64 word"

definition rotl64 :: "nat \<Rightarrow> lane \<Rightarrow> lane" where
  "rotl64 n v = push_bit n v OR drop_bit (64 - n) v"

definition theta_C :: "lane list \<Rightarrow> lane list" where
  "theta_C A = map (\<lambda>x. A ! x XOR A ! (x + 5) XOR A ! (x + 10) XOR A ! (x + 15) XOR A ! (x + 20)) [0..<5]"

definition theta_D :: "lane list \<Rightarrow> lane list" where
  "theta_D C = map (\<lambda>x. C ! ((x + 4) mod 5) XOR rotl64 1 (C ! ((x + 1) mod 5))) [0..<5]"

definition theta_apply :: "lane list \<Rightarrow> lane list \<Rightarrow> lane list" where
  "theta_apply D A = map (\<lambda>i. A ! i XOR D ! (i mod 5)) [0..<25]"

definition theta :: "lane list \<Rightarrow> lane list" where
  "theta A = theta_apply (theta_D (theta_C A)) A"

text \<open>Rho and pi in one table: for each target index, the source index and the rotation.\<close>

definition rho_pi_table :: "(nat \<times> nat) list" where
  "rho_pi_table =
     [(0, 0), (6, 44), (12, 43), (18, 21), (24, 14), (3, 28), (9, 20), (10, 3), (16, 45),
      (22, 61), (1, 1), (7, 6), (13, 25), (19, 8), (20, 18), (4, 27), (5, 36), (11, 10),
      (17, 15), (23, 56), (2, 62), (8, 55), (14, 39), (15, 41), (21, 2)]"

definition rho_pi :: "lane list \<Rightarrow> lane list" where
  "rho_pi A = map (\<lambda>sr. rotl64 (snd sr) (A ! fst sr)) rho_pi_table"

definition chi :: "lane list \<Rightarrow> lane list" where
  "chi B =
     map (\<lambda>i. B ! i XOR (NOT (B ! ((i mod 5 + 1) mod 5 + 5 * (i div 5)))
                          AND B ! ((i mod 5 + 2) mod 5 + 5 * (i div 5))))
       [0..<25]"

definition iota :: "lane \<Rightarrow> lane list \<Rightarrow> lane list" where
  "iota rc A = (case A of [] \<Rightarrow> [] | a # rest \<Rightarrow> (a XOR rc) # rest)"

definition keccak_round :: "lane list \<Rightarrow> lane \<Rightarrow> lane list" where
  "keccak_round A rc = iota rc (chi (rho_pi (theta A)))"

definition round_constants :: "lane list" where
  "round_constants =
     [1, 32898, 9223372036854808714, 9223372039002292224, 32907, 2147483649,
      9223372039002292353, 9223372036854808585, 138, 136, 2147516425, 2147483658, 2147516555,
      9223372036854775947, 9223372036854808713, 9223372036854808579, 9223372036854808578,
      9223372036854775936, 32778, 9223372039002259466, 9223372039002292353,
      9223372036854808704, 2147483649, 9223372039002292232]"

definition keccak_f :: "lane list \<Rightarrow> lane list" where
  "keccak_f A = foldl keccak_round A round_constants"

definition lane_of_bytes :: "byte list \<Rightarrow> lane" where
  "lane_of_bytes bs = foldr (\<lambda>b acc. ucast b OR push_bit 8 acc) bs 0"

definition bytes_of_lane :: "lane \<Rightarrow> byte list" where
  "bytes_of_lane l = map (\<lambda>i. ucast (drop_bit (8 * i) l)) [0..<8]"

fun lanes_of_block :: "byte list \<Rightarrow> lane list" where
  "lanes_of_block (b0 # b1 # b2 # b3 # b4 # b5 # b6 # b7 # rest) =
     lane_of_bytes [b0, b1, b2, b3, b4, b5, b6, b7] # lanes_of_block rest"
| "lanes_of_block bs = []"

fun xor_lanes :: "lane list \<Rightarrow> lane list \<Rightarrow> lane list" where
  "xor_lanes (a # A) (b # B) = (a XOR b) # xor_lanes A B"
| "xor_lanes A [] = A"
| "xor_lanes [] B = []"

definition keccak_pad :: "byte list \<Rightarrow> byte list" where
  "keccak_pad msg =
     (let k = 136 - (length msg mod 136) in
      if k = 1 then msg @ [129]
      else msg @ [1] @ replicate (k - 2) 0 @ [128])"

fun absorb :: "lane list \<Rightarrow> byte list \<Rightarrow> lane list" where
  "absorb A bs =
     (if bs = [] then A
      else absorb (keccak_f (xor_lanes A (lanes_of_block (take 136 bs)))) (drop 136 bs))"

declare absorb.simps [simp del]

definition keccak256_bytes :: "byte list \<Rightarrow> byte list" where
  "keccak256_bytes msg =
     take 32 (concat (map bytes_of_lane (absorb (replicate 25 0) (keccak_pad msg))))"

text \<open>\<open>ethers.keccak256\<close> returns the digest as a \<open>0x\<close> hex string.\<close>

definition ethers_keccak256 :: "byte list \<Rightarrow> string" where
  "ethers_keccak256 msg = ''0x'' @ to_hex (keccak256_bytes msg)"


section \<open>Connector (src/connector/index.js)\<close>

subsection \<open>Values that come back from the ledger\<close>

text \<open>The values the code reads off the contract. An ethers v6 \<open>Result\<close> is what a call
  returns for a tuple: its components in order, each under its ABI name. A \<open>uint8\<close> comes
  back as a \<open>BigInt\<close>, a \<open>bytes32\<close> and an \<open>address\<close> as strings. \<open>Object\<close> is a
  plain JavaScript object with its own properties.\<close>

datatype js_value =
    Undefined
  | Number nat
  | BigInt nat
  | Boolean bool
  | Str string
  | Result "(string \<times> js_value) list"
  | Object "(string \<times> js_value) list"

text \<open>The own enumerable properties, which is what the spread \<open>{...v}\<close> copies. A
  \<open>Result\<close> is an array behind a proxy: its own properties are the indices; the names are
  kept in a private field and answered by the proxy's \<open>get\<close>, so the spread does not see
  them.\<close>

definition own_properties :: "js_value \<Rightarrow> (string \<times> js_value) list" where
  "own_properties v =
     (case v of
        Object kvs \<Rightarrow> kvs
      | Result nvs \<Rightarrow> zip (map decimal [0..<length nvs]) (map snd nvs)
      | Str s \<Rightarrow> zip (map decimal [0..<length s]) (map (\<lambda>c. Str [c]) s)
      | _ \<Rightarrow> [])"

text \<open>The property \<open>k\<close> of a plain object with the given own properties.\<close>

definition property :: "(string \<times> js_value) list \<Rightarrow> string \<Rightarrow> js_value" where
  "property kvs k = (case map_of kvs k of None \<Rightarrow> Undefined | Some v \<Rightarrow> v)"

text \<open>The read \<open>v.k\<close>. On \<open>undefined\<close> it throws, naming the property between single
  quotes; a \<open>Result\<close> answers an index or a name; a number, a boolean or a string has no
  data property of the names read here.\<close>

definition quoted :: "string \<Rightarrow> string" where
  "quoted k = CHR 0x27 # k @ [CHR 0x27]"

definition get_property :: "js_value \<Rightarrow> string \<Rightarrow> js_error + js_value" where
  "get_property v k =
     (case v of
        Undefined \<Rightarrow>
          Inl (TypeError (''Cannot read properties of undefined (reading '' @ quoted k @ '')''))
      | Object kvs \<Rightarrow> Inr (property kvs k)
      | Result nvs \<Rightarrow>
          Inr (case map_of (own_properties (Result nvs)) k of
                 Some x \<Rightarrow> x
               | None \<Rightarrow> property nvs k)
      | _ \<Rightarrow> Inr Undefined)"






text \<open>An address argument of a contract call: ethers takes a string and throws a
  \<open>TypeError\<close> on \<open>undefined\<close> and on any value that is not addressable.\<close>

definition address_argument :: "js_value \<Rightarrow> js_error + string" where
  "address_argument v =
     (case v of
        Str a \<Rightarrow> Inr a
      | _ \<Rightarrow> Inl (TypeError ''unsupported addressable value''))"

subsection \<open>Jobs, the wallet and the collaborators\<close>

record job_roles =
  creator :: string
  arbitrator :: string
  worker :: string

text \<open>A job as \<open>getJobs\<close> builds it from the ledger's answer, field by field and by
  index, with the \<open>id\<close> the connector adds. A digest that is \<open>None\<close> is an absent
  (\<open>undefined\<close>) field.\<close>

record job =
  jid :: nat
  title :: jsstring
  state :: nat
  roles :: job_roles
  multipleApplicants :: bool
  tags :: "jsstring list"
  contentHash :: "string option"
  resultHash :: "string option"

text \<open>The wallet is a signing capability: \<open>signMessage\<close> returns the signature as a
  \<open>0x\<close> hex string. A string message is signed as its UTF-8 bytes.\<close>

record wallet =
  address :: string
  signMessage :: "byte list \<Rightarrow> string"

text \<open>The write calls of the marketplace contract.\<close>

datatype tx =
    PostThreadMessage nat string string
  | TakeJob nat string
  | DeliverResult nat string

text \<open>Everything outside the repository that the connector talks to during one poll tick:
  the two contracts, the pinning service, the gateways, the cipher and the random source.
  \<open>marketplace.getJob\<close> answers with the value ethers decodes, or throws. A write call
  either confirms or throws.\<close>

record world =
  wallet_of :: wallet
  marketplace_getJob :: "nat \<Rightarrow> js_error + js_value"
  marketplaceData_publicKeys :: "string \<Rightarrow> js_error + string"
  marketplaceData_eventsLength :: "nat \<Rightarrow> js_error + nat"
  confirm :: "tx \<Rightarrow> js_error + unit"
  pinFileToIPFS :: "byte list \<Rightarrow> js_error + string"
  axios_get :: network
  cipher :: gcm
  random_source :: "nat \<Rightarrow> byte"
  config_gateways :: "string list"
  config_relevantTags :: "jsstring list"
  clock :: nat

text \<open>The connector's own state: \<open>processedJobs\<close>, and the write calls it has made, in
  order (whether or not they confirmed).\<close>

record connector =
  processedJobs :: "nat set"
  submitted :: "tx list"

definition truthy :: "'a list option \<Rightarrow> bool" where
  "truthy s = (case s of None \<Rightarrow> False | Some v \<Rightarrow> v \<noteq> [])"

definition toUtf8Bytes :: "string \<Rightarrow> byte list" where
  "toUtf8Bytes s = map (\<lambda>c. of_nat (of_char c)) s"

definition toLowerCase :: "jsstring \<Rightarrow> jsstring" where
  "toLowerCase s = map (\<lambda>u. if 65 \<le> unat u \<and> unat u \<le> 90 then u + 32 else u) s"

fun includes_str :: "'a list \<Rightarrow> 'a list \<Rightarrow> bool" where
  "includes_str [] sub = (sub = [])"
| "includes_str (x # xs) sub = (take (length sub) (x # xs) = sub \<or> includes_str xs sub)"

subsection \<open>Session key (src/encryption/index.js, getSessionKey)\<close>

definition messageToSign :: "nat \<Rightarrow> string \<Rightarrow> string" where
  "messageToSign jobId otherPublicKey = ''session-key-'' @ decimal jobId @ ''-'' @ otherPublicKey"

definition getSessionKey :: "wallet \<Rightarrow> string \<Rightarrow> nat \<Rightarrow> string" where
  "getSessionKey wlt otherPublicKey jobId =
     (let signature = signMessage wlt (toUtf8Bytes (messageToSign jobId otherPublicKey))
      in take 64 (drop 2 signature))"

subsection \<open>Publishing (src/encryption/index.js, publishToIpfs)\<close>

text \<open>The bytes handed to the pinning service: the UTF-8 of the content, or of the base64
  of its envelope when a key is given. Encryption happens before the \<open>try\<close>, so its error
  is thrown as it is; an error of the upload is rethrown as \<open>Failed to publish to IPFS\<close>.
  The result is the \<open>hash\<close> field of what the function returns.\<close>

definition dataToUpload :: "world \<Rightarrow> jsstring \<Rightarrow> string option \<Rightarrow> js_error + byte list" where
  "dataToUpload w content encryptionKey =
     (if truthy encryptionKey then
        (case encryptUtf8Data (cipher w) (random_source w) content (case_option [] id encryptionKey) of
           Inl e \<Rightarrow> Inl e
         | Inr envelope \<Rightarrow> Inr (toUtf8Bytes (buffer_to_base64 envelope)))
      else Inr (utf8_encode content))"

definition publishToIpfs :: "world \<Rightarrow> jsstring \<Rightarrow> string option \<Rightarrow> js_error + string" where
  "publishToIpfs w content encryptionKey =
     (case dataToUpload w content encryptionKey of
        Inl e \<Rightarrow> Inl e
      | Inr file \<Rightarrow>
          (case pinFileToIPFS w file of
             Inl e \<Rightarrow> Inl (Error (''Failed to publish to IPFS: '' @ message e))
           | Inr hash \<Rightarrow> Inr hash))"

text \<open>\<open>ethers.keccak256(ethers.toUtf8Bytes(hash))\<close>: the value that \<open>applyForJob\<close> and
  \<open>deliverResult\<close> hand to the contract as the \<open>bytes32\<close> digest of what they
  published at the locator \<open>hash\<close>.\<close>

definition contentHashBytes :: "string \<Rightarrow> string" where
  "contentHashBytes hash = ethers_keccak256 (toUtf8Bytes hash)"

subsection \<open>Reading jobs\<close>

text \<open>\<open>getJob\<close> returns \<open>{...job, id: jobId}\<close>: a plain object with the own properties
  of the ledger's answer and the \<open>id\<close>.\<close>

definition getJob :: "world \<Rightarrow> nat \<Rightarrow> js_error + (string \<times> js_value) list" where
  "getJob w jobId =
     (case marketplace_getJob w jobId of
        Inl e \<Rightarrow> Inl e
      | Inr job \<Rightarrow> Inr (map_set ''id'' (Number jobId) (own_properties job)))"

definition zero_hash :: string where
  "zero_hash = ''0x0000000000000000000000000000000000000000000000000000000000000000''"

text \<open>\<open>getJobContent\<close>: the body of its \<open>try\<close>, and the function itself, which turns
  every error of the body into the empty string. The second component is the list of URLs
  requested.\<close>

definition getJobContent_try :: "world \<Rightarrow> string \<Rightarrow> (js_error + jsstring) \<times> string list" where
  "getJobContent_try w hash =
     (case hashToCid hash of
        Inl e \<Rightarrow> (Inl e, [])
      | Inr contentCid \<Rightarrow>
          getFromIpfs (cipher w) (axios_get w) (config_gateways w) contentCid None)"

definition getJobContent :: "world \<Rightarrow> job \<Rightarrow> jsstring \<times> string list" where
  "getJobContent w j =
     (if \<not> truthy (contentHash j) \<or> contentHash j = Some zero_hash then ([], [])
      else
        (case getJobContent_try w (case_option [] id (contentHash j)) of
           (Inr content, urls) \<Rightarrow> (content, urls)
         | (Inl error, urls) \<Rightarrow> ([], urls)))"

subsection \<open>Relevance (isRelevantJob)\<close>

definition titleMatches :: "world \<Rightarrow> job \<Rightarrow> bool" where
  "titleMatches w j =
     list_ex (\<lambda>tag. includes_str (toLowerCase (title j)) (toLowerCase tag)) (config_relevantTags w)"

definition tagMatches :: "world \<Rightarrow> job \<Rightarrow> bool" where
  "tagMatches w j =
     list_ex (\<lambda>tag. list_ex (\<lambda>relevantTag. includes_str (toLowerCase tag) (toLowerCase relevantTag))
                       (config_relevantTags w))
       (tags j)"

definition contentMatches :: "world \<Rightarrow> jsstring \<Rightarrow> bool" where
  "contentMatches w content =
     list_ex (\<lambda>tag. includes_str (toLowerCase content) (toLowerCase tag)) (config_relevantTags w)"

definition isRelevantJob :: "world \<Rightarrow> connector \<Rightarrow> job \<Rightarrow> jsstring \<Rightarrow> bool" where
  "isRelevantJob w c j content =
     (if state j \<noteq> 0 then False
      else if jid j \<in> processedJobs c then False
      else if title j \<noteq> [] \<and> titleMatches w j then True
      else if tags j \<noteq> [] \<and> tagMatches w j then True
      else if content \<noteq> [] \<and> contentMatches w content then True
      else False)"

subsection \<open>Writing: applyForJob, takeJob, deliverResult\<close>

text \<open>A write call is recorded when it is made; it then confirms or throws.\<close>

definition send_tx :: "world \<Rightarrow> connector \<Rightarrow> tx \<Rightarrow> (js_error + unit) \<times> connector" where
  "send_tx w c t = (confirm w t, c\<lparr>submitted := submitted c @ [t]\<rparr>)"

text \<open>\<open>job.roles.creator\<close> on the object that \<open>getJob\<close> returned.\<close>

definition roles_creator :: "(string \<times> js_value) list \<Rightarrow> js_error + js_value" where
  "roles_creator job = get_property (property job ''roles'') ''creator''"

text \<open>The body of the \<open>try\<close> of \<open>applyForJob\<close>. The owner that was read is the
  address argument of \<open>publicKeys\<close> and of \<open>postThreadMessage\<close>.\<close>

definition applyForJob_try ::
    "world \<Rightarrow> connector \<Rightarrow> nat \<Rightarrow> jsstring \<Rightarrow> (js_error + unit) \<times> connector" where
  "applyForJob_try w c jobId applicationMessage =
     (case getJob w jobId of
        Inl e \<Rightarrow> (Inl e, c)
      | Inr job \<Rightarrow>
          (case roles_creator job of
             Inl e \<Rightarrow> (Inl e, c)
           | Inr owner \<Rightarrow>
               (case address_argument owner of
                  Inl e \<Rightarrow> (Inl e, c)
                | Inr ownerAddress \<Rightarrow>
                    (case marketplaceData_publicKeys w ownerAddress of
                       Inl e \<Rightarrow> (Inl e, c)
                     | Inr ownerPublicKey \<Rightarrow>
                         if ownerPublicKey = [] \<or> ownerPublicKey = ''0x''
                         then (Inl (Error (''Owner public key not available for job ''
                                            @ decimal jobId)), c)
                         else
                           let sessionKey = getSessionKey (wallet_of w) ownerPublicKey jobId in
                           (case publishToIpfs w applicationMessage (Some sessionKey) of
                              Inl e \<Rightarrow> (Inl e, c)
                            | Inr hash \<Rightarrow>
                                (case send_tx w c
                                        (PostThreadMessage jobId (contentHashBytes hash) ownerAddress) of
                                   (Inl e, c') \<Rightarrow> (Inl e, c')
                                 | (Inr u, c') \<Rightarrow>
                                     (Inr (), c'\<lparr>processedJobs := insert jobId (processedJobs c')\<rparr>)))))))"

text \<open>\<open>applyForJob\<close> logs what the body throws and returns \<open>false\<close>.\<close>

definition applyForJob :: "world \<Rightarrow> connector \<Rightarrow> nat \<Rightarrow> jsstring \<Rightarrow> bool \<times> connector" where
  "applyForJob w c jobId applicationMessage =
     (case applyForJob_try w c jobId applicationMessage of
        (Inl error, c') \<Rightarrow> (False, c')
      | (Inr u, c') \<Rightarrow> (True, c'))"

definition uint256_bytes :: "nat \<Rightarrow> byte list" where
  "uint256_bytes n = map (\<lambda>i. of_nat (n div 256 ^ (31 - i))) [0..<32]"

definition takeJob_try :: "world \<Rightarrow> connector \<Rightarrow> nat \<Rightarrow> (js_error + unit) \<times> connector" where
  "takeJob_try w c jobId =
     (case marketplaceData_eventsLength w jobId of
        Inl e \<Rightarrow> (Inl e, c)
      | Inr revision \<Rightarrow>
          let messageHash = ethers_keccak256 (uint256_bytes revision @ uint256_bytes jobId);
              messageBytes = buffer_from_hex (drop 2 messageHash);
              signature = signMessage (wallet_of w) messageBytes
          in (case send_tx w c (TakeJob jobId signature) of
                (Inl e, c') \<Rightarrow> (Inl e, c')
              | (Inr u, c') \<Rightarrow>
                  (Inr (), c'\<lparr>processedJobs := insert jobId (processedJobs c')\<rparr>)))"

definition takeJob :: "world \<Rightarrow> connector \<Rightarrow> nat \<Rightarrow> bool \<times> connector" where
  "takeJob w c jobId =
     (case takeJob_try w c jobId of
        (Inl error, c') \<Rightarrow> (False, c')
      | (Inr u, c') \<Rightarrow> (True, c'))"




section \<open>Agents and the agent manager (src/base-agent/index.js, src/agent-manager/index.js)\<close>

subsection \<open>Active jobs of an agent\<close>

datatype status = started | executing | delivered | delivery_failed

record jobInfo =
  info_job :: job
  info_content :: jsstring
  info_startTime :: nat
  info_status :: status
  info_data :: "jsstring option"


text \<open>An agent: the four methods a specialised agent implements (each may throw), and its
  \<open>activeJobs\<close> map.\<close>

record agent =
  isJobMatch :: "job \<Rightarrow> jsstring \<Rightarrow> js_error + bool"
  createApplicationMessage :: "job \<Rightarrow> jsstring \<Rightarrow> js_error + jsstring"
  executeJob :: "job \<Rightarrow> jsstring \<Rightarrow> js_error + jsstring"
  packageResult :: "job \<Rightarrow> jsstring \<Rightarrow> jsstring \<Rightarrow> js_error + jsstring"
  activeJobs :: "(nat \<times> jobInfo) list"

definition addActiveJob :: "agent \<Rightarrow> job \<Rightarrow> jsstring \<Rightarrow> nat \<Rightarrow> agent" where
  "addActiveJob a j content t =
     a\<lparr>activeJobs :=
         map_set (jid j)
           \<lparr>info_job = j, info_content = content, info_startTime = t,
            info_status = started, info_data = None\<rparr>
           (activeJobs a)\<rparr>"



subsection \<open>The manager\<close>

record manager =
  agents :: "(string \<times> agent) list"
  connector_of :: connector

fun findMatchingAgents ::
    "(string \<times> agent) list \<Rightarrow> job \<Rightarrow> jsstring \<Rightarrow> js_error + (string \<times> agent) list" where
  "findMatchingAgents [] j content = Inr []"
| "findMatchingAgents ((name, a) # rest) j content =
     (case isJobMatch a j content of
        Inl e \<Rightarrow> Inl e
      | Inr matches \<Rightarrow>
          (case findMatchingAgents rest j content of
             Inl e \<Rightarrow> Inl e
           | Inr matchingAgents \<Rightarrow>
               Inr (if matches then (name, a) # matchingAgents else matchingAgents)))"

text \<open>The body of the \<open>try\<close> of \<open>processJob\<close>; \<open>processJob\<close> itself logs what the body
  throws and goes on.\<close>

definition processJob_try :: "world \<Rightarrow> manager \<Rightarrow> job \<Rightarrow> (js_error + unit) \<times> manager" where
  "processJob_try w m j =
     (let content = fst (getJobContent w j) in
      if \<not> isRelevantJob w (connector_of m) j content then (Inr (), m)
      else
        (case findMatchingAgents (agents m) j content of
           Inl e \<Rightarrow> (Inl e, m)
         | Inr [] \<Rightarrow> (Inr (), m)
         | Inr ((name, a) # others) \<Rightarrow>
             (case createApplicationMessage a j content of
                Inl e \<Rightarrow> (Inl e, m)
              | Inr applicationMessage \<Rightarrow>
                  (case applyForJob w (connector_of m) (jid j) applicationMessage of
                     (False, c') \<Rightarrow> (Inr (), m\<lparr>connector_of := c'\<rparr>)
                   | (True, c') \<Rightarrow>
                       let c'' = (if \<not> multipleApplicants j then snd (takeJob w c' (jid j)) else c')
                       in (Inr (),
                           m\<lparr>connector_of := c'',
                             agents := map_set name (addActiveJob a j content (clock w)) (agents m)\<rparr>)))))"

definition processJob :: "world \<Rightarrow> manager \<Rightarrow> job \<Rightarrow> manager" where
  "processJob w m j = snd (processJob_try w m j)"










section \<open>Sample collaborators\<close>

text \<open>Concrete wallets, a ledger, an agent and a manager, to run the definitions on. The
  sample signer is deterministic and depends on the signer's secret and on the message, as
  a signature does; it is not ECDSA.\<close>

definition sample_sign :: "nat \<Rightarrow> byte list \<Rightarrow> string" where
  "sample_sign secret msg =
     ''0x'' @ to_hex (map (\<lambda>i. of_nat (secret * (i + 1)) + foldl (+) 0 msg) [0..<65])"

definition alice :: wallet where
  "alice = \<lparr> address = ''0x00000000000000000000000000000000000000A1'',
             signMessage = sample_sign 3 \<rparr>"

definition bob :: wallet where
  "bob = \<lparr> address = ''0x00000000000000000000000000000000000000B2'',
           signMessage = sample_sign 5 \<rparr>"

definition alice_publicKey :: string where
  "alice_publicKey = ''0x02a1''"

definition bob_publicKey :: string where
  "bob_publicKey = ''0x03b2''"

definition sample_job :: job where
  "sample_job =
     \<lparr> jid = 7, title = js ''Need a Discord bot'', state = 0,
       roles = \<lparr> creator = ''0x00000000000000000000000000000000000000B2'',
                 arbitrator = ''0x0000000000000000000000000000000000000000'',
                 worker = ''0x0000000000000000000000000000000000000000'' \<rparr>,
       multipleApplicants = False, tags = [js ''discord''],
       contentHash = Some ''QmT'', resultHash = None \<rparr>"

text \<open>What \<open>marketplace.getJob(7)\<close> answers for that job: the seventeen components of
  the ABI tuple, in order, as ethers decodes them.\<close>

definition ledger_job :: "nat \<Rightarrow> string \<Rightarrow> js_value" where
  "ledger_job st wrk =
     Result
       [(''state'', BigInt st),
        (''whitelistWorkers'', Boolean False),
        (''roles'', Result [(''creator'', Str ''0x00000000000000000000000000000000000000B2''),
                            (''arbitrator'', Str ''0x0000000000000000000000000000000000000000''),
                            (''worker'', Str wrk)]),
        (''title'', Str ''Need a Discord bot''),
        (''tags'', Result [([], Str ''discord'')]),
        (''contentHash'', Str ''0x7d5a99f603f231d53a4f39d1521f98d2e8bb279cf29bebfd0687dc98458e7f89''),
        (''multipleApplicants'', Boolean False),
        (''amount'', BigInt 1000000),
        (''token'', Str ''0x00000000000000000000000000000000000000C3''),
        (''timestamp'', BigInt 1700000000),
        (''maxTime'', BigInt 86400),
        (''deliveryMethod'', Str ''ipfs''),
        (''collateralOwed'', BigInt 0),
        (''escrowId'', BigInt 1),
        (''resultHash'', Str zero_hash),
        (''rating'', BigInt 0),
        (''disputed'', Boolean False)]"

text \<open>A world in which job 7 is open, its creator has published no key and no gateway
  answers.\<close>

definition sample_world :: world where
  "sample_world =
     \<lparr> wallet_of = alice,
       marketplace_getJob = (\<lambda>i. Inr (ledger_job 0 ''0x0000000000000000000000000000000000000000'')),
       marketplaceData_publicKeys = (\<lambda>a. Inr ''0x''),
       marketplaceData_eventsLength = (\<lambda>i. Inr 0),
       confirm = (\<lambda>t. Inr ()),
       pinFileToIPFS = (\<lambda>file. Inr ''QmT''),
       axios_get = dead_net,
       cipher = sample_gcm,
       random_source = sample_rnd,
       config_gateways = sample_gateways,
       config_relevantTags = [js ''bot'', js ''automation''],
       clock = 0 \<rparr>"


definition sample_agent :: agent where
  "sample_agent =
     \<lparr> isJobMatch = (\<lambda>j content. Inr True),
       createApplicationMessage = (\<lambda>j content. Inr (js ''I can build this'')),
       executeJob = (\<lambda>j content. Inr (js ''bot.js'')),
       packageResult = (\<lambda>j content result. Inr result),
       activeJobs = [] \<rparr>"

definition sample_connector :: connector where
  "sample_connector = \<lparr> processedJobs = {}, submitted = [] \<rparr>"

definition sample_manager :: manager where
  "sample_manager = \<lparr> agents = [(''discord-bot'', sample_agent)], connector_of = sample_connector \<rparr>"




section \<open>Content address resolver: proofs\<close>

lemma nat_less_le_256_aux:
  fixes u p r :: nat
  assumes "u < 256" "r < p"
  shows "u * p + r < 256 * p"
proof -
  from assms(1) have "u \<le> 255" by simp
  then have "u * p \<le> 255 * p" by (rule mult_le_mono1)
  then have "u * p + r < 255 * p + p" using assms(2) by (rule add_le_less_mono)
  then show ?thesis by simp
qed

lemma digits58_step: "n > 0 \<Longrightarrow> digits58 n = digits58 (n div 58) @ [n mod 58]"
  by (subst digits58.simps) simp

lemma digits58_split:
  "58 ^ k \<le> n \<Longrightarrow> \<exists>ys. length ys = k \<and> digits58 n = digits58 (n div 58 ^ k) @ ys"
proof (induction k arbitrary: n)
  case 0
  then show ?case by simp
next
  case (Suc k)
  have "(0::nat) < 58 ^ Suc k" by simp
  with Suc.prems have pos: "n > 0" by linarith
  have "58 ^ k \<le> n div 58" using Suc.prems
    by (simp add: less_eq_div_iff_mult_less_eq mult.commute)
  from Suc.IH [OF this] obtain ys where ys: "length ys = k"
      "digits58 (n div 58) = digits58 (n div 58 div 58 ^ k) @ ys" by blast
  have "n div 58 div 58 ^ k = n div 58 ^ Suc k"
    by (simp add: div_mult2_eq)
  with ys digits58_step [OF pos] show ?case
    by (intro exI [of _ "ys @ [n mod 58]"]) simp
qed

lemma nat_of_bytes_foldl:
  "foldl (\<lambda>acc b. 256 * acc + unat b) a bs = a * 256 ^ length bs + nat_of_bytes bs"
proof -
  define f where "f = (\<lambda>acc (b::byte). 256 * acc + unat b)"
  have "foldl f a bs = a * 256 ^ length bs + foldl f 0 bs"
  proof (induction bs arbitrary: a)
    case Nil
    show ?case by simp
  next
    case (Cons b bs)
    have fa: "f a b = 256 * a + unat b" and f0: "f 0 b = unat b"
      by (simp_all add: f_def)
    have "foldl f a (b # bs) = foldl f (f a b) bs" by simp
    also have "\<dots> = f a b * 256 ^ length bs + foldl f 0 bs"
      by (rule Cons.IH)
    also have "\<dots> = a * 256 ^ length (b # bs) + (f 0 b * 256 ^ length bs + foldl f 0 bs)"
      unfolding fa f0 by (simp add: algebra_simps)
    also have "f 0 b * 256 ^ length bs + foldl f 0 bs = foldl f (f 0 b) bs"
      by (rule Cons.IH [symmetric])
    also have "foldl f (f 0 b) bs = foldl f 0 (b # bs)" by simp
    finally show ?case .
  qed
  then show ?thesis by (simp add: f_def nat_of_bytes_def)
qed

lemma nat_of_bytes_Cons:
  "nat_of_bytes (b # bs) = unat b * 256 ^ length bs + nat_of_bytes bs"
  using nat_of_bytes_foldl [of "unat b" bs] by (simp add: nat_of_bytes_def)

lemma nat_of_bytes_less: "nat_of_bytes bs < 256 ^ length bs"
proof (induction bs)
  case Nil
  show ?case by (simp add: nat_of_bytes_def)
next
  case (Cons b bs)
  have "unat b < 256" using unsigned_less [of b] by simp
  then have "unat b * 256 ^ length bs + nat_of_bytes bs < 256 * 256 ^ length bs"
    using Cons.IH
    by (simp add: nat_less_le_256_aux)
  then show ?case by (simp add: nat_of_bytes_Cons)
qed

lemma multihash_encode_32:
  "length d = 32 \<Longrightarrow> multihash_encode d = 18 # 32 # d"
  by (simp add: multihash_encode_def sha2_256_code_def varint.simps)

lemma digits58_1378: "digits58 1378 = [23, 44]"
  by code_simp

lemma sha256_multihash_range:
  assumes "length d = 32"
  shows "nat_of_bytes (18 # 32 # d) div 58 ^ 44 = 1378"
proof -
  let ?n = "nat_of_bytes (18 # 32 # d)"
  have d: "nat_of_bytes d < 256 ^ 32" using nat_of_bytes_less [of d] assms by simp
  have n: "?n = 4640 * 256 ^ 32 + nat_of_bytes d"
    using assms by (simp add: nat_of_bytes_Cons)
  have lo: "1378 * 58 ^ 44 \<le> ?n" unfolding n by simp
  have hi: "?n < 1379 * 58 ^ 44" unfolding n using d by simp
  from lo hi show ?thesis
    by (simp add: div_nat_eqI mult.commute)
qed

lemma bs58_encode_sha256_multihash:
  assumes "length d = 32"
  shows "startsWith (bs58_encode (18 # 32 # d)) ''Qm''"
proof -
  let ?n = "nat_of_bytes (18 # 32 # d)"
  have "58 ^ 44 \<le> ?n"
  proof (rule ccontr)
    assume "\<not> 58 ^ 44 \<le> ?n"
    then have "?n div 58 ^ 44 = 0" by simp
    with sha256_multihash_range [OF assms] show False by simp
  qed
  from digits58_split [OF this] obtain ys where
    "digits58 ?n = digits58 (?n div 58 ^ 44) @ ys" by blast
  then have "digits58 ?n = [23, 44] @ ys"
    by (simp only: sha256_multihash_range [OF assms] digits58_1378)
  then show ?thesis
    by (simp add: bs58_encode_def startsWith_def bs58_alphabet_def)
qed

lemma hashToCid_Qm: "startsWith s ''Qm'' \<Longrightarrow> hashToCid s = Inr s"
  by (cases s) (auto simp: hashToCid_def startsWith_def)


text \<open>Claim C9. \<open>hashToCid\<close> returns every input that starts with \<open>Qm\<close> unchanged, and
  the locator it builds for a 32-byte digest (hex, with or without the \<open>0x\<close> prefix)
  itself starts with \<open>Qm\<close>; so applying \<open>hashToCid\<close> to its own result for such a
  digest gives the same locator again.\<close>

theorem hashToCid_idempotent:
  "(startsWith s ''Qm'' \<longrightarrow> hashToCid s = Inr s) \<and>
   (length (buffer_from_hex h) = 32 \<longrightarrow>
      (\<exists>c. hashToCid h = Inr c \<and> hashToCid (''0x'' @ h) = Inr c \<and>
           startsWith c ''Qm'' \<and> hashToCid c = Inr c))"
proof (intro conjI impI)
  assume "startsWith s ''Qm''"
  then show "hashToCid s = Inr s" by (rule hashToCid_Qm)
next
  assume len: "length (buffer_from_hex h) = 32"
  let ?c = "bs58_encode (18 # 32 # buffer_from_hex h)"
  have no0x: "\<not> startsWith h ''0x''"
  proof
    assume "startsWith h ''0x''"
    then obtain t where "h = CHR ''0'' # CHR ''x'' # t"
      by (cases h; cases "tl h") (auto simp: startsWith_def)
    then have "buffer_from_hex h = []" by (simp add: hex_val_def)
    with len show False by simp
  qed
  have noQm: "\<not> startsWith h ''Qm''"
  proof
    assume "startsWith h ''Qm''"
    then obtain t where "h = CHR ''Q'' # CHR ''m'' # t"
      by (cases h; cases "tl h") (auto simp: startsWith_def)
    then have "buffer_from_hex h = []" by (simp add: hex_val_def)
    with len show False by simp
  qed
  have c: "startsWith ?c ''Qm''"
    by (rule bs58_encode_sha256_multihash [OF len])
  have 1: "hashToCid h = Inr ?c"
    using no0x noQm by (simp add: hashToCid_def multihash_encode_32 [OF len])
  have 2: "hashToCid (''0x'' @ h) = Inr ?c"
    using noQm by (simp add: hashToCid_def startsWith_def multihash_encode_32 [OF len])
  from 1 2 c hashToCid_Qm [OF c]
  show "\<exists>c. hashToCid h = Inr c \<and> hashToCid (''0x'' @ h) = Inr c \<and>
           startsWith c ''Qm'' \<and> hashToCid c = Inr c"
    by blast
qed

theorem hashToCid_idempotent_witness:
  "startsWith ''QmNLei78zWmzUdbeRB3CiUfAizWUrbeeZh5K1rhAQKCh51'' ''Qm'' \<and>
   hashToCid ''QmNLei78zWmzUdbeRB3CiUfAizWUrbeeZh5K1rhAQKCh51''
     = Inr ''QmNLei78zWmzUdbeRB3CiUfAizWUrbeeZh5K1rhAQKCh51'' \<and>
   length (buffer_from_hex
     ''0000000000000000000000000000000000000000000000000000000000000000'') = 32 \<and>
   (\<exists>c. hashToCid ''0000000000000000000000000000000000000000000000000000000000000000'' = Inr c \<and>
        hashToCid ''0x0000000000000000000000000000000000000000000000000000000000000000'' = Inr c \<and>
        startsWith c ''Qm'' \<and> hashToCid c = Inr c)"
proof -
  have s: "startsWith ''QmNLei78zWmzUdbeRB3CiUfAizWUrbeeZh5K1rhAQKCh51'' ''Qm''"
    by (simp add: startsWith_def)
  have h: "length (buffer_from_hex
     ''0000000000000000000000000000000000000000000000000000000000000000'') = 32"
    by (simp add: hex_val_def)
  from s h hashToCid_idempotent
    [of "''QmNLei78zWmzUdbeRB3CiUfAizWUrbeeZh5K1rhAQKCh51''"
        "''0000000000000000000000000000000000000000000000000000000000000000''"]
  show ?thesis by simp
qed


section \<open>UTF-8: decoding what was encoded\<close>

lemma unat_byte: "n < 256 \<Longrightarrow> unat (of_nat n :: byte) = n"
  by (simp add: unat_of_nat)

lemma unat_unit: "n < 65536 \<Longrightarrow> unat (of_nat n :: 16 word) = n"
  by (simp add: unat_of_nat)

lemma utf8_next_ascii: "n0 < 128 \<Longrightarrow> utf8_next (of_nat n0) rest = (n0, 1)"
  by (simp add: utf8_next_def unat_byte)

lemma utf8_next_two:
  assumes "194 \<le> n0" "n0 \<le> 223" "128 \<le> n1" "n1 \<le> 191"
  shows "utf8_next (of_nat n0) (of_nat n1 # rest) = ((n0 - 192) * 64 + (n1 - 128), 2)"
proof -
  have "unat (of_nat n0 :: byte) = n0" "unat (of_nat n1 :: byte) = n1"
    using assms by (simp_all add: unat_byte)
  then show ?thesis using assms
    by (simp add: utf8_next_def in_range_def trail_def)
qed

lemma utf8_next_three:
  assumes "224 \<le> n0" "n0 \<le> 239" "128 \<le> n1" "n1 \<le> 191" "128 \<le> n2" "n2 \<le> 191"
    and "n0 = 224 \<Longrightarrow> 160 \<le> n1" and "n0 = 237 \<Longrightarrow> n1 \<le> 159"
  shows "utf8_next (of_nat n0) (of_nat n1 # of_nat n2 # rest)
         = ((n0 - 224) * 4096 + (n1 - 128) * 64 + (n2 - 128), 3)"
proof -
  have "unat (of_nat n0 :: byte) = n0" "unat (of_nat n1 :: byte) = n1"
      "unat (of_nat n2 :: byte) = n2"
    using assms by (simp_all add: unat_byte)
  then show ?thesis using assms
    by (simp add: utf8_next_def in_range_def trail_def)
qed

lemma utf8_next_four:
  assumes "240 \<le> n0" "n0 \<le> 244" "128 \<le> n1" "n1 \<le> 191" "128 \<le> n2" "n2 \<le> 191"
      "128 \<le> n3" "n3 \<le> 191"
    and "n0 = 240 \<Longrightarrow> 144 \<le> n1" and "n0 = 244 \<Longrightarrow> n1 \<le> 143"
  shows "utf8_next (of_nat n0) (of_nat n1 # of_nat n2 # of_nat n3 # rest)
         = ((n0 - 240) * 262144 + (n1 - 128) * 4096 + (n2 - 128) * 64 + (n3 - 128), 4)"
proof -
  have "unat (of_nat n0 :: byte) = n0" "unat (of_nat n1 :: byte) = n1"
      "unat (of_nat n2 :: byte) = n2" "unat (of_nat n3 :: byte) = n3"
    using assms by (simp_all add: unat_byte)
  then show ?thesis using assms
    by (simp add: utf8_next_def in_range_def trail_def)
qed

lemma split64:
  fixes c :: nat
  shows "c div 64 * 64 + c mod 64 = c"
  by simp

lemma split3:
  fixes c :: nat
  shows "c div 4096 * 4096 + c div 64 mod 64 * 64 + c mod 64 = c"
proof -
  have "c div 4096 = c div 64 div 64"
    using div_mult2_eq [of c 64 64] by simp
  moreover have "c div 64 div 64 * 64 + c div 64 mod 64 = c div 64" by simp
  moreover have "c div 64 * 64 + c mod 64 = c" by simp
  ultimately show ?thesis by linarith
qed

lemma split4:
  fixes c :: nat
  shows "c div 262144 * 262144 + c div 4096 mod 64 * 4096 + c div 64 mod 64 * 64 + c mod 64 = c"
proof -
  have "c div 262144 = c div 4096 div 64"
    using div_mult2_eq [of c 4096 64] by simp
  moreover have "c div 4096 div 64 * 64 + c div 4096 mod 64 = c div 4096" by simp
  ultimately have "c div 262144 * 262144 + c div 4096 mod 64 * 4096 = c div 4096 * 4096"
    by linarith
  with split3 [of c] show ?thesis by linarith
qed

lemma utf8_decode_bytes:
  assumes "scalar c"
  shows "utf8_decode (utf8_bytes c @ rest) = code_units c @ utf8_decode rest"
proof -
  consider "c < 128" | "128 \<le> c" "c < 2048" | "2048 \<le> c" "c < 65536"
    | "65536 \<le> c" "c < 1114112"
    using assms unfolding scalar_def by linarith
  then show ?thesis
  proof cases
    case 1
    then show ?thesis by (simp add: utf8_bytes_def utf8_next_ascii del: of_nat_add)
  next
    case 2
    define a d where "a = c div 64" and "d = c mod 64"
    have c: "a * 64 + d = c" and d: "d < 64" by (simp_all add: a_def d_def)
    have "utf8_next (of_nat (192 + a)) (of_nat (128 + d) # rest)
          = ((192 + a - 192) * 64 + (128 + d - 128), 2)"
      using 2 c d by (intro utf8_next_two) linarith+
    then have "utf8_next (of_nat (192 + a)) (of_nat (128 + d) # rest) = (c, 2)"
      using c by simp
    then show ?thesis using 2
      by (simp add: utf8_bytes_def a_def d_def del: of_nat_add)
  next
    case 3
    define a b d where "a = c div 4096" and "b = c div 64 mod 64" and "d = c mod 64"
    have c: "a * 4096 + b * 64 + d = c" and d: "d < 64" and b: "b < 64"
      using split3 [of c] by (simp_all add: a_def b_def d_def)
    have s: "c < 55296 \<or> 57344 \<le> c"
      using assms unfolding scalar_def is_high_surrogate_def is_low_surrogate_def by linarith
    have "utf8_next (of_nat (224 + a)) (of_nat (128 + b) # of_nat (128 + d) # rest)
          = ((224 + a - 224) * 4096 + (128 + b - 128) * 64 + (128 + d - 128), 3)"
      using 3 c d b s by (intro utf8_next_three) linarith+
    then have "utf8_next (of_nat (224 + a)) (of_nat (128 + b) # of_nat (128 + d) # rest) = (c, 3)"
      using c by simp
    then show ?thesis using 3
      by (simp add: utf8_bytes_def a_def b_def d_def del: of_nat_add)
  next
    case 4
    define a b1 b d where "a = c div 262144" and "b1 = c div 4096 mod 64"
      and "b = c div 64 mod 64" and "d = c mod 64"
    have c: "a * 262144 + b1 * 4096 + b * 64 + d = c" and d: "d < 64" and b: "b < 64"
      and b1: "b1 < 64"
      using split4 [of c] by (simp_all add: a_def b_def b1_def d_def)
    have "utf8_next (of_nat (240 + a))
             (of_nat (128 + b1) # of_nat (128 + b) # of_nat (128 + d) # rest)
          = ((240 + a - 240) * 262144 + (128 + b1 - 128) * 4096 + (128 + b - 128) * 64
              + (128 + d - 128), 4)"
      using 4 c d b b1 by (intro utf8_next_four) linarith+
    then have "utf8_next (of_nat (240 + a))
             (of_nat (128 + b1) # of_nat (128 + b) # of_nat (128 + d) # rest) = (c, 4)"
      using c by simp
    then show ?thesis using 4
      by (simp add: utf8_bytes_def a_def b_def b1_def d_def del: of_nat_add)
  qed
qed


lemma code_units_bmp: "code_units (unat (u :: 16 word)) = [u]"
proof -
  have "unat u < 65536" using unsigned_less [of u, where ?'a = nat] by simp
  then show ?thesis by (simp add: code_units_def)
qed

lemma scalar_bmp:
  "\<not> is_high_surrogate (unat (u :: 16 word)) \<Longrightarrow> \<not> is_low_surrogate (unat u)
   \<Longrightarrow> scalar (unat u)"
proof -
  have "unat u < 65536" using unsigned_less [of u, where ?'a = nat] by simp
  then show "\<not> is_high_surrogate (unat u) \<Longrightarrow> \<not> is_low_surrogate (unat u)
   \<Longrightarrow> scalar (unat u)" by (simp add: scalar_def)
qed

lemma surrogate_pair:
  fixes u v :: "16 word"
  assumes "is_high_surrogate (unat u)" "is_low_surrogate (unat v)"
  defines "c \<equiv> 65536 + (unat u - 55296) * 1024 + (unat v - 56320)"
  shows "scalar c" and "code_units c = [u, v]"
proof -
  define h l where "h = unat u - 55296" and "l = unat v - 56320"
  have h: "h < 1024" "unat u = 55296 + h" and l: "l < 1024" "unat v = 56320 + l"
    using assms(1,2) by (auto simp: is_high_surrogate_def is_low_surrogate_def h_def l_def)
  have c: "c = 65536 + h * 1024 + l" by (simp add: c_def h_def l_def)
  show "scalar c" using h l
    by (simp add: scalar_def c is_high_surrogate_def is_low_surrogate_def)
  have "(c - 65536) div 1024 = h" "(c - 65536) mod 1024 = l"
    using h l by (simp_all add: c)
  then have "code_units c = [of_nat (unat u), of_nat (unat v)]"
    using h l by (simp add: code_units_def c del: of_nat_add)
  then show "code_units c = [u, v]" by simp
qed

lemma utf8_roundtrip: "well_formed s \<Longrightarrow> utf8_decode (utf8_encode s) = s"
proof (induction s rule: utf8_encode.induct)
  case 1
  show ?case by simp
next
  case (2 u)
  then have "scalar (unat u)" by (simp add: scalar_bmp)
  from utf8_decode_bytes [OF this, of "[]"] 2 show ?case
    by (simp add: code_units_bmp)
next
  case (3 u v us)
  show ?case
  proof (cases "is_high_surrogate (unat u)")
    case True
    with "3.prems" have low: "is_low_surrogate (unat v)" and wf: "well_formed us"
      by simp_all
    from surrogate_pair [OF True low] "3.IH"(1) [OF True low wf]
      utf8_decode_bytes [of "65536 + (unat u - 55296) * 1024 + (unat v - 56320)" "utf8_encode us"]
    show ?thesis using True low by simp
  next
    case False
    with "3.prems" have nl: "\<not> is_low_surrogate (unat u)" and wf: "well_formed (v # us)"
      by simp_all
    from utf8_decode_bytes [OF scalar_bmp [OF False nl], of "utf8_encode (v # us)"]
      "3.IH"(4) [OF False nl wf]
    show ?thesis using False nl by (simp add: code_units_bmp)
  qed
qed

lemma lone_surrogate_lossy: "utf8_decode (utf8_encode [55296]) = [65533]"
  by (simp add: is_high_surrogate_def utf8_bytes_def utf8_next_def in_range_def trail_def code_units_def)


section \<open>AEAD codec: proofs\<close>

lemma gcm_crypt_length: "length (gcm_crypt g key iv bs) = length bs"
  by (simp add: gcm_crypt_def)

lemma gcm_crypt_nth:
  "i < length bs \<Longrightarrow> gcm_crypt g key iv bs ! i = bs ! i XOR keystream g key iv i"
  by (simp add: gcm_crypt_def)

lemma gcm_crypt_involution: "gcm_crypt g key iv (gcm_crypt g key iv bs) = bs"
proof (rule nth_equalityI)
  show "length (gcm_crypt g key iv (gcm_crypt g key iv bs)) = length bs"
    by (simp add: gcm_crypt_length)
next
  fix i
  assume "i < length (gcm_crypt g key iv (gcm_crypt g key iv bs))"
  then have i: "i < length bs" by (simp add: gcm_crypt_length)
  then show "gcm_crypt g key iv (gcm_crypt g key iv bs) ! i = bs ! i"
    by (simp add: gcm_crypt_nth gcm_crypt_length xor.assoc)
qed

lemma getAuthTag_length: "length (getAuthTag g key iv encrypted) = 16"
  by (simp add: getAuthTag_def tag_bytes_def)

lemma randomBytes_length: "length (randomBytes rnd n) = n"
  by (simp add: randomBytes_def)

lemma encryptUtf8Data_envelope:
  assumes "length (buffer_from_hex (take 64 key)) = 32"
  shows "encryptUtf8Data g rnd data key =
           Inr (randomBytes rnd 16
                @ getAuthTag g (buffer_from_hex (take 64 key)) (randomBytes rnd 16)
                    (gcm_crypt g (buffer_from_hex (take 64 key)) (randomBytes rnd 16) (utf8_encode data))
                @ gcm_crypt g (buffer_from_hex (take 64 key)) (randomBytes rnd 16) (utf8_encode data))"
proof -
  have "randomBytes rnd 16 \<noteq> []" using randomBytes_length [of rnd 16] by auto
  then show ?thesis using assms
    by (simp add: encryptUtf8Data_def createCipheriv_def Let_def)
qed


lemma decryptToUtf8_parts:
  assumes "length keyBuffer = 32" "keyBuffer = buffer_from_hex (take 64 key)"
    and "length iv = 16" "length authTag = 16"
  shows "decryptToUtf8 g (iv @ authTag @ encrypted) key =
           (if getAuthTag g keyBuffer iv encrypted = authTag
            then Inr (utf8_decode (gcm_crypt g keyBuffer iv encrypted))
            else Inl (Error ''Unsupported state or unable to authenticate data''))"
proof -
  have "iv \<noteq> []" using assms(3) by auto
  then show ?thesis using assms getAuthTag_length [of g keyBuffer iv encrypted]
    by (simp add: decryptToUtf8_def createCipheriv_def setAuthTag_def decipher_final_def
        decipher_update_def Let_def)
qed





lemma seal_then_open_eq:
  assumes "length (buffer_from_hex (take 64 key)) = 32"
  shows "seal_then_open g rnd data key = Inr (utf8_decode (utf8_encode data))"
  unfolding seal_then_open_def encryptUtf8Data_envelope [OF assms]
  by (simp add: decryptToUtf8_parts [OF assms refl] randomBytes_length getAuthTag_length
      gcm_crypt_involution)

lemma sample_key_length: "length (buffer_from_hex (take 64 sample_key)) = 32"
  by (simp add: sample_key_def hex_val_def)

lemma well_formed_hi: "well_formed (js ''hi'')"
  by (simp add: js_def is_high_surrogate_def is_low_surrogate_def)

lemma sample_key_bytes: "buffer_from_hex (take 64 sample_key) =
   [0,1,2,3,4,5,6,7,8,9,10,11,12,13,14,15,16,17,18,19,20,21,22,23,24,25,26,27,28,29,30,31]"
  by (simp add: sample_key_def hex_val_def)







text \<open>Claim C3, as the code has it. For every plaintext without unpaired surrogates
  and every key whose first 64 characters are the hex of 32 bytes, \<open>encryptUtf8Data\<close>
  returns \<open>iv (16 bytes) || authTag (16 bytes) || ciphertext\<close> and \<open>decryptToUtf8\<close> of
  that envelope under the same key returns the plaintext exactly. This holds for every
  key stream and tag function.\<close>

theorem seal_open_roundtrip:
  assumes "well_formed data" and "length (buffer_from_hex (take 64 key)) = 32"
  shows "\<exists>iv authTag encrypted.
           length iv = 16 \<and> length authTag = 16 \<and>
           encryptUtf8Data g rnd data key = Inr (iv @ authTag @ encrypted) \<and>
           decryptToUtf8 g (iv @ authTag @ encrypted) key = Inr data"
proof -
  let ?kb = "buffer_from_hex (take 64 key)"
  let ?iv = "randomBytes rnd 16"
  let ?ct = "gcm_crypt g ?kb ?iv (utf8_encode data)"
  let ?tag = "getAuthTag g ?kb ?iv ?ct"
  have e: "encryptUtf8Data g rnd data key = Inr (?iv @ ?tag @ ?ct)"
    by (rule encryptUtf8Data_envelope [OF assms(2)])
  have "seal_then_open g rnd data key = Inr data"
    by (simp add: seal_then_open_eq [OF assms(2)] utf8_roundtrip [OF assms(1)])
  then have d: "decryptToUtf8 g (?iv @ ?tag @ ?ct) key = Inr data"
    by (simp add: seal_then_open_def e)
  from e d randomBytes_length [of rnd 16] getAuthTag_length [of g ?kb ?iv ?ct]
  show ?thesis by blast
qed

text \<open>The round trip on the plaintext \<open>hi\<close> with the sample parameters.\<close>

theorem seal_open_roundtrip_witness:
  "well_formed (js ''hi'') \<and> length (buffer_from_hex (take 64 sample_key)) = 32 \<and>
   (\<exists>iv authTag encrypted.
           length iv = 16 \<and> length authTag = 16 \<and>
           encryptUtf8Data sample_gcm sample_rnd (js ''hi'') sample_key = Inr (iv @ authTag @ encrypted) \<and>
           decryptToUtf8 sample_gcm (iv @ authTag @ encrypted) sample_key = Inr (js ''hi''))"
  using seal_open_roundtrip [OF well_formed_hi sample_key_length, of sample_gcm sample_rnd]
    well_formed_hi sample_key_length by blast

text \<open>Claim C3 as stated, for every string, fails: the one-unit string holding the
  unpaired surrogate U+D800 is written as \<open>EF BF BD\<close> before it is encrypted, and comes
  back as U+FFFD.\<close>

theorem seal_open_lone_surrogate_counterexample:
  "seal_then_open sample_gcm sample_rnd [55296] sample_key = Inr [65533]
   \<and> [65533] \<noteq> [55296 :: 16 word]"
  unfolding seal_then_open_eq [OF sample_key_length] lone_surrogate_lossy by simp






lemma sample_open_flipped_tag:
  "decryptToUtf8 sample_gcm
     [3, 20, 37, 54, 71, 88, 105, 122, 139, 156, 173, 190, 207, 224, 241, 2,
      0, 0, 0, 0, 4, 0, 0, 0, 0, 0, 0, 0, 0, 0, 191, 54, 88, 94] sample_key
   = Inl (Error ''Unsupported state or unable to authenticate data'')"
proof -
  have "decryptToUtf8 sample_gcm
          ([3, 20, 37, 54, 71, 88, 105, 122, 139, 156, 173, 190, 207, 224, 241, 2]
           @ [0, 0, 0, 0, 4, 0, 0, 0, 0, 0, 0, 0, 0, 0, 191, 54] @ [88, 94]) sample_key
        = (if getAuthTag sample_gcm (buffer_from_hex (take 64 sample_key))
                 [3, 20, 37, 54, 71, 88, 105, 122, 139, 156, 173, 190, 207, 224, 241, 2] [88, 94]
              = [0, 0, 0, 0, 4, 0, 0, 0, 0, 0, 0, 0, 0, 0, 191, 54]
           then Inr (utf8_decode (gcm_crypt sample_gcm (buffer_from_hex (take 64 sample_key))
                  [3, 20, 37, 54, 71, 88, 105, 122, 139, 156, 173, 190, 207, 224, 241, 2] [88, 94]))
           else Inl (Error ''Unsupported state or unable to authenticate data''))"
    by (rule decryptToUtf8_parts [OF sample_key_length refl]) simp_all
  moreover have "getAuthTag sample_gcm (buffer_from_hex (take 64 sample_key))
                 [3, 20, 37, 54, 71, 88, 105, 122, 139, 156, 173, 190, 207, 224, 241, 2] [88, 94]
              = [0, 0, 0, 0, 0, 0, 0, 0, 0, 0, 0, 0, 0, 0, 191, 54]"
    by (simp add: getAuthTag_def sample_gcm_def sample_key_bytes tag_bytes_def upt_rec)
  ultimately show ?thesis by simp
qed




section \<open>Gateway fetcher: proofs\<close>

text \<open>One attempt, in terms of the number of requests made before it.\<close>

lemma gateway_attempt_eq:
  "gateway_attempt net decode cid log gateway =
     ((case net (length log) (gateway @ cid) of Inl e \<Rightarrow> Inl e | Inr content \<Rightarrow> decode content),
      log @ [gateway @ cid])"
  by (simp add: gateway_attempt_def request_def split: sum.split)

lemma getFromIpfs_loop_all_fail:
  assumes ga: "\<And>log gw. gateway_attempt net decode cid log gw = (out (length log) gw, log @ [gw @ cid])"
    and "gateways \<noteq> []"
    and "\<forall>i<length gateways. isl (out (length log + i) (gateways ! i))"
  shows "\<exists>e. out (length log + (length gateways - 1)) (last gateways) = Inl e \<and>
             getFromIpfs_loop net decode cid log gateways lastError =
               (Inl (Error (''Failed to retrieve from all IPFS gateways: '' @ message e)),
                log @ map (\<lambda>gw. gw @ cid) gateways)"
  using assms(2,3)
proof (induction gateways arbitrary: log lastError)
  case Nil
  then show ?case by simp
next
  case (Cons gw gws)
  from Cons.prems(2) have "isl (out (length log + 0) ((gw # gws) ! 0))"
    by blast
  then obtain e0 where e0: "out (length log) gw = Inl e0"
    by (auto simp: isl_def)
  show ?case
  proof (cases gws)
    case Nil
    with e0 show ?thesis by (simp add: ga)
  next
    case (Cons a as)
    then have ne: "gws \<noteq> []" by simp
    have "\<forall>i<length gws. isl (out (length (log @ [gw @ cid]) + i) (gws ! i))"
    proof (intro allI impI)
      fix i assume "i < length gws"
      then have "Suc i < length (gw # gws)" by simp
      with Cons.prems(2) have "isl (out (length log + Suc i) ((gw # gws) ! Suc i))"
        by blast
      then show "isl (out (length (log @ [gw @ cid]) + i) (gws ! i))" by simp
    qed
    from Cons.IH [OF ne this, of "Some e0"] obtain e where
      e: "out (length (log @ [gw @ cid]) + (length gws - 1)) (last gws) = Inl e"
        "getFromIpfs_loop net decode cid (log @ [gw @ cid]) gws (Some e0) =
               (Inl (Error (''Failed to retrieve from all IPFS gateways: '' @ message e)),
                (log @ [gw @ cid]) @ map (\<lambda>gw. gw @ cid) gws)"
      by blast
    have idx: "length (log @ [gw @ cid]) + (length gws - 1) = length log + (length (gw # gws) - 1)"
      and l: "last (gw # gws) = last gws"
      using ne by (cases gws; simp)+
    from e(1) have "out (length log + (length (gw # gws) - 1)) (last (gw # gws)) = Inl e"
      unfolding l idx .
    moreover have "getFromIpfs_loop net decode cid log (gw # gws) lastError =
               (Inl (Error (''Failed to retrieve from all IPFS gateways: '' @ message e)),
                log @ map (\<lambda>gw. gw @ cid) (gw # gws))"
      using e0 e(2) by (simp add: ga)
    ultimately show ?thesis by blast
  qed
qed

lemma getFromIpfs_loop_success:
  assumes ga: "\<And>log gw. gateway_attempt net decode cid log gw = (out (length log) gw, log @ [gw @ cid])"
    and "i < length gateways"
    and "\<forall>j<i. isl (out (length log + j) (gateways ! j))"
    and "out (length log + i) (gateways ! i) = Inr content"
  shows "getFromIpfs_loop net decode cid log gateways lastError =
           (Inr content, log @ map (\<lambda>gw. gw @ cid) (take (Suc i) gateways))"
  using assms(2,3,4)
proof (induction gateways arbitrary: log i lastError)
  case Nil
  then show ?case by simp
next
  case (Cons gw gws)
  show ?case
  proof (cases i)
    case 0
    with Cons.prems(3) show ?thesis by (simp add: ga)
  next
    case (Suc k)
    with Cons.prems(2) have "isl (out (length log + 0) ((gw # gws) ! 0))"
      by blast
    then obtain e0 where e0: "out (length log) gw = Inl e0"
      by (auto simp: isl_def)
    have k: "k < length gws" using Cons.prems(1) Suc by simp
    have fails: "\<forall>j<k. isl (out (length (log @ [gw @ cid]) + j) (gws ! j))"
    proof (intro allI impI)
      fix j assume "j < k"
      then have "Suc j < i" using Suc by simp
      with Cons.prems(2) have "isl (out (length log + Suc j) ((gw # gws) ! Suc j))"
        by blast
      then show "isl (out (length (log @ [gw @ cid]) + j) (gws ! j))" by simp
    qed
    have ok: "out (length (log @ [gw @ cid]) + k) (gws ! k) = Inr content"
      using Cons.prems(3) Suc by simp
    from Cons.IH [OF k fails ok, of "Some e0"] e0 Suc show ?thesis by (simp add: ga)
  qed
qed

lemma getFromIpfs_loop_error:
  assumes ga: "\<And>log gw. gateway_attempt net decode cid log gw = (out (length log) gw, log @ [gw @ cid])"
    and "fst (getFromIpfs_loop net decode cid log gateways lastError) = Inl x"
  shows "\<forall>i<length gateways. isl (out (length log + i) (gateways ! i))"
  using assms(2)
proof (induction gateways arbitrary: log lastError)
  case Nil
  then show ?case by simp
next
  case (Cons gw gws)
  show ?case
  proof (cases "out (length log) gw")
    case (Inr content)
    with Cons.prems show ?thesis by (simp add: ga)
  next
    case (Inl e0)
    with Cons.prems have "fst (getFromIpfs_loop net decode cid (log @ [gw @ cid]) gws (Some e0)) = Inl x"
      by (simp add: ga)
    from Cons.IH [OF this]
    have rest: "\<forall>i<length gws. isl (out (length (log @ [gw @ cid]) + i) (gws ! i))" .
    show ?thesis
    proof (intro allI impI)
      fix i assume i: "i < length (gw # gws)"
      show "isl (out (length log + i) ((gw # gws) ! i))"
      proof (cases i)
        case 0
        with Inl show ?thesis by simp
      next
        case (Suc k)
        with i rest have "isl (out (length (log @ [gw @ cid]) + k) (gws ! k))" by simp
        with Suc show ?thesis by simp
      qed
    qed
  qed
qed

lemma getFromIpfs_attempts:
  assumes "ipfsGateways \<noteq> []"
  shows "(i < length ipfsGateways \<and>
       (\<forall>j<i. isl (attempt g net ipfsGateways cid decryptionKey j)) \<and>
       attempt g net ipfsGateways cid decryptionKey i = Inr content
       \<longrightarrow> getFromIpfs g net ipfsGateways cid decryptionKey
             = (Inr content, map (\<lambda>gw. gw @ cid) (take (Suc i) ipfsGateways)))"
    and "(\<forall>i<length ipfsGateways. isl (attempt g net ipfsGateways cid decryptionKey i))
        \<longleftrightarrow> (\<exists>e. attempt g net ipfsGateways cid decryptionKey (length ipfsGateways - 1) = Inl e
                  \<and> fst (getFromIpfs g net ipfsGateways cid decryptionKey)
                        = Inl (Error (''Failed to retrieve from all IPFS gateways: '' @ message e)))"
    and "(\<forall>i<length ipfsGateways. isl (attempt g net ipfsGateways cid decryptionKey i))
        \<longrightarrow> snd (getFromIpfs g net ipfsGateways cid decryptionKey)
              = map (\<lambda>gw. gw @ cid) ipfsGateways"
proof -
  let ?dec = "decode_content g decryptionKey"
  let ?res = "getFromIpfs g net ipfsGateways cid decryptionKey"
  define out where
    "out = (\<lambda>n gw. case net n (gw @ cid) of Inl e \<Rightarrow> Inl e | Inr content \<Rightarrow> ?dec content)"
  have ga: "gateway_attempt net ?dec cid log gw = (out (length log) gw, log @ [gw @ cid])" for log gw
    by (simp add: gateway_attempt_eq out_def)
  have att: "attempt g net ipfsGateways cid decryptionKey i
             = out (length ([] :: string list) + i) (ipfsGateways ! i)" for i
    by (simp add: attempt_def out_def)
  have res: "?res = getFromIpfs_loop net ?dec cid [] ipfsGateways None"
    by (simp add: getFromIpfs_def)
  have last: "ipfsGateways ! (length ipfsGateways - 1) = last ipfsGateways"
    using assms by (simp add: last_conv_nth)
  have first: "?res = (Inr content, map (\<lambda>gw. gw @ cid) (take (Suc i) ipfsGateways))"
    if "i < length ipfsGateways"
      "\<forall>j<i. isl (attempt g net ipfsGateways cid decryptionKey j)"
      "attempt g net ipfsGateways cid decryptionKey i = Inr content"
    for i content
    using getFromIpfs_loop_success [of net ?dec cid out i ipfsGateways "[]" content None, OF ga]
      that unfolding res att by simp
  have all: "\<exists>e. attempt g net ipfsGateways cid decryptionKey (length ipfsGateways - 1) = Inl e
                  \<and> ?res = (Inl (Error (''Failed to retrieve from all IPFS gateways: '' @ message e)),
                            map (\<lambda>gw. gw @ cid) ipfsGateways)"
    if "\<forall>i<length ipfsGateways. isl (attempt g net ipfsGateways cid decryptionKey i)"
    using getFromIpfs_loop_all_fail [of net ?dec cid out ipfsGateways "[]" None, OF ga assms] that
    unfolding res att last by simp
  have only: "\<forall>i<length ipfsGateways. isl (attempt g net ipfsGateways cid decryptionKey i)"
    if "fst ?res = Inl x" for x
    using getFromIpfs_loop_error [of net ?dec cid out "[]" ipfsGateways None x, OF ga] that
    unfolding res att by simp
  show "(i < length ipfsGateways \<and>
       (\<forall>j<i. isl (attempt g net ipfsGateways cid decryptionKey j)) \<and>
       attempt g net ipfsGateways cid decryptionKey i = Inr content
       \<longrightarrow> ?res = (Inr content, map (\<lambda>gw. gw @ cid) (take (Suc i) ipfsGateways)))"
    using first by blast
  show "(\<forall>i<length ipfsGateways. isl (attempt g net ipfsGateways cid decryptionKey i))
        \<longleftrightarrow> (\<exists>e. attempt g net ipfsGateways cid decryptionKey (length ipfsGateways - 1) = Inl e
                  \<and> fst ?res = Inl (Error (''Failed to retrieve from all IPFS gateways: '' @ message e)))"
  proof
    assume "\<forall>i<length ipfsGateways. isl (attempt g net ipfsGateways cid decryptionKey i)"
    from all [OF this]
    show "\<exists>e. attempt g net ipfsGateways cid decryptionKey (length ipfsGateways - 1) = Inl e
                  \<and> fst ?res = Inl (Error (''Failed to retrieve from all IPFS gateways: '' @ message e))"
      by auto
  next
    assume "\<exists>e. attempt g net ipfsGateways cid decryptionKey (length ipfsGateways - 1) = Inl e
                  \<and> fst ?res = Inl (Error (''Failed to retrieve from all IPFS gateways: '' @ message e))"
    then show "\<forall>i<length ipfsGateways. isl (attempt g net ipfsGateways cid decryptionKey i)"
      using only by blast
  qed
  show "(\<forall>i<length ipfsGateways. isl (attempt g net ipfsGateways cid decryptionKey i))
        \<longrightarrow> snd ?res = map (\<lambda>gw. gw @ cid) ipfsGateways"
  proof
    assume "\<forall>i<length ipfsGateways. isl (attempt g net ipfsGateways cid decryptionKey i)"
    from all [OF this]
    show "snd ?res = map (\<lambda>gw. gw @ cid) ipfsGateways" by auto
  qed
qed

lemma attempt_without_key: "attempt g net ipfsGateways cid None i = net i (ipfsGateways ! i @ cid)"
  by (simp add: attempt_def decode_content_def split: sum.split)

text \<open>Claim C5, as the code has it. An attempt is what sits in the \<open>try\<close> of the loop:
  the request and, when a key is given, the decryption of the answer. With a gateway list
  that is not empty (the configuration's has five entries), \<open>getFromIpfs\<close> asks the
  gateways in list order: when the attempt at position \<open>i\<close> is the first to succeed, its
  content is returned and exactly the URLs of positions \<open>0\<close> to \<open>i\<close> were requested,
  in that order, none after it. \<open>Error('Failed to retrieve from all IPFS gateways: ...')\<close>
  with the message of the last attempt's error is thrown if and only if every attempt
  fails, and then every gateway was requested once, in order. Without a key an attempt is
  the request alone, so that the error is thrown if and only if every request fails.\<close>

theorem getFromIpfs_gateway_order:
  assumes "ipfsGateways \<noteq> []"
  shows
   "(\<forall>i content.
       i < length ipfsGateways \<and>
       (\<forall>j<i. isl (attempt g net ipfsGateways cid decryptionKey j)) \<and>
       attempt g net ipfsGateways cid decryptionKey i = Inr content
       \<longrightarrow> getFromIpfs g net ipfsGateways cid decryptionKey
             = (Inr content, map (\<lambda>gw. gw @ cid) (take (Suc i) ipfsGateways)))
    \<and> ((\<forall>i<length ipfsGateways. isl (attempt g net ipfsGateways cid decryptionKey i))
        \<longleftrightarrow> (\<exists>e. attempt g net ipfsGateways cid decryptionKey (length ipfsGateways - 1) = Inl e
                  \<and> fst (getFromIpfs g net ipfsGateways cid decryptionKey)
                        = Inl (Error (''Failed to retrieve from all IPFS gateways: '' @ message e))))
    \<and> ((\<forall>i<length ipfsGateways. isl (attempt g net ipfsGateways cid decryptionKey i))
        \<longrightarrow> snd (getFromIpfs g net ipfsGateways cid decryptionKey)
              = map (\<lambda>gw. gw @ cid) ipfsGateways)
    \<and> ((\<forall>i<length ipfsGateways. isl (net i (ipfsGateways ! i @ cid)))
        \<longleftrightarrow> (\<exists>e. net (length ipfsGateways - 1) (ipfsGateways ! (length ipfsGateways - 1) @ cid) = Inl e
                  \<and> fst (getFromIpfs g net ipfsGateways cid None)
                        = Inl (Error (''Failed to retrieve from all IPFS gateways: '' @ message e))))"
proof (intro conjI allI)
  fix i content
  show "i < length ipfsGateways \<and>
       (\<forall>j<i. isl (attempt g net ipfsGateways cid decryptionKey j)) \<and>
       attempt g net ipfsGateways cid decryptionKey i = Inr content
       \<longrightarrow> getFromIpfs g net ipfsGateways cid decryptionKey
             = (Inr content, map (\<lambda>gw. gw @ cid) (take (Suc i) ipfsGateways))"
    by (rule getFromIpfs_attempts(1) [OF assms])
next
  show "(\<forall>i<length ipfsGateways. isl (attempt g net ipfsGateways cid decryptionKey i))
        \<longleftrightarrow> (\<exists>e. attempt g net ipfsGateways cid decryptionKey (length ipfsGateways - 1) = Inl e
                  \<and> fst (getFromIpfs g net ipfsGateways cid decryptionKey)
                        = Inl (Error (''Failed to retrieve from all IPFS gateways: '' @ message e)))"
    by (rule getFromIpfs_attempts(2) [OF assms])
next
  show "(\<forall>i<length ipfsGateways. isl (attempt g net ipfsGateways cid decryptionKey i))
        \<longrightarrow> snd (getFromIpfs g net ipfsGateways cid decryptionKey)
              = map (\<lambda>gw. gw @ cid) ipfsGateways"
    by (rule getFromIpfs_attempts(3) [OF assms])
next
  show "(\<forall>i<length ipfsGateways. isl (net i (ipfsGateways ! i @ cid)))
        \<longleftrightarrow> (\<exists>e. net (length ipfsGateways - 1) (ipfsGateways ! (length ipfsGateways - 1) @ cid) = Inl e
                  \<and> fst (getFromIpfs g net ipfsGateways cid None)
                        = Inl (Error (''Failed to retrieve from all IPFS gateways: '' @ message e)))"
    using getFromIpfs_attempts(2) [OF assms, of g net cid None]
    unfolding attempt_without_key .
qed

text \<open>The third gateway answers after two time-outs; and no gateway answers.\<close>

theorem getFromIpfs_gateway_order_witness:
  "sample_gateways \<noteq> [] \<and>
   getFromIpfs sample_gcm sample_net sample_gateways ''QmT'' None
     = (Inr (js ''ok''),
        [''https://gw.example/ipfs/QmT'', ''https://gateway.pinata.cloud/ipfs/QmT'',
         ''https://cloudflare-ipfs.com/ipfs/QmT'']) \<and>
   getFromIpfs sample_gcm dead_net sample_gateways ''QmT'' None
     = (Inl (Error ''Failed to retrieve from all IPFS gateways: timeout of 10000ms exceeded''),
        [''https://gw.example/ipfs/QmT'', ''https://gateway.pinata.cloud/ipfs/QmT'',
         ''https://cloudflare-ipfs.com/ipfs/QmT'', ''https://dweb.link/ipfs/QmT'',
         ''https://ipfs.io/ipfs/QmT''])"
proof -
  have ne: "sample_gateways \<noteq> []"
    by (simp add: sample_gateways_def config_ipfsGateways_def)
  have len: "length sample_gateways = 5"
    by (simp add: sample_gateways_def config_ipfsGateways_def)
  note thm1 = getFromIpfs_gateway_order [OF ne, of sample_gcm sample_net "''QmT''" None]
  note thm2 = getFromIpfs_gateway_order [OF ne, of sample_gcm dead_net "''QmT''" None]
  have a: "attempt sample_gcm sample_net sample_gateways ''QmT'' None i
           = (if i < 2 then Inl (Error ''timeout of 10000ms exceeded'') else Inr (js ''ok''))" for i
    by (simp add: attempt_def decode_content_def sample_net_def)
  have d: "attempt sample_gcm dead_net sample_gateways ''QmT'' None i
           = Inl (Error ''timeout of 10000ms exceeded'')" for i
    by (simp add: attempt_def decode_content_def dead_net_def)
  have "2 < length sample_gateways \<and>
       (\<forall>j<2. isl (attempt sample_gcm sample_net sample_gateways ''QmT'' None j)) \<and>
       attempt sample_gcm sample_net sample_gateways ''QmT'' None 2 = Inr (js ''ok'')"
    by (simp add: a len)
  with thm1 have "getFromIpfs sample_gcm sample_net sample_gateways ''QmT'' None
     = (Inr (js ''ok''), map (\<lambda>gw. gw @ ''QmT'') (take (Suc 2) sample_gateways))"
    by blast
  then have 1: "getFromIpfs sample_gcm sample_net sample_gateways ''QmT'' None
     = (Inr (js ''ok''),
        [''https://gw.example/ipfs/QmT'', ''https://gateway.pinata.cloud/ipfs/QmT'',
         ''https://cloudflare-ipfs.com/ipfs/QmT''])"
    by (simp add: sample_gateways_def config_ipfsGateways_def)
  have all: "\<forall>i<length sample_gateways.
      isl (attempt sample_gcm dead_net sample_gateways ''QmT'' None i)"
    by (simp add: d)
  with thm2 obtain e where
    e1: "attempt sample_gcm dead_net sample_gateways ''QmT'' None (length sample_gateways - 1) = Inl e"
    and e2: "fst (getFromIpfs sample_gcm dead_net sample_gateways ''QmT'' None)
       = Inl (Error (''Failed to retrieve from all IPFS gateways: '' @ message e))"
    by blast
  from e1 have "e = Error ''timeout of 10000ms exceeded''" by (simp add: d)
  with e2 have f: "fst (getFromIpfs sample_gcm dead_net sample_gateways ''QmT'' None)
       = Inl (Error ''Failed to retrieve from all IPFS gateways: timeout of 10000ms exceeded'')"
    by simp
  from thm2 all have "snd (getFromIpfs sample_gcm dead_net sample_gateways ''QmT'' None)
       = map (\<lambda>gw. gw @ ''QmT'') sample_gateways"
    by blast
  then have s: "snd (getFromIpfs sample_gcm dead_net sample_gateways ''QmT'' None)
       = [''https://gw.example/ipfs/QmT'', ''https://gateway.pinata.cloud/ipfs/QmT'',
         ''https://cloudflare-ipfs.com/ipfs/QmT'', ''https://dweb.link/ipfs/QmT'',
         ''https://ipfs.io/ipfs/QmT'']"
    by (simp add: sample_gateways_def config_ipfsGateways_def)
  from f s have 2: "getFromIpfs sample_gcm dead_net sample_gateways ''QmT'' None
     = (Inl (Error ''Failed to retrieve from all IPFS gateways: timeout of 10000ms exceeded''),
        [''https://gw.example/ipfs/QmT'', ''https://gateway.pinata.cloud/ipfs/QmT'',
         ''https://cloudflare-ipfs.com/ipfs/QmT'', ''https://dweb.link/ipfs/QmT'',
         ''https://ipfs.io/ipfs/QmT''])"
    by (metis prod.collapse)
  from ne 1 2 show ?thesis by blast
qed

lemma sample_tampered_base64:
  "buffer_from_base64 (js ''AxQlNkdYaXqLnK2+z+DxAgAAAAAEAAAAAAAAAAAAvzZYXg=='')
   = [3, 20, 37, 54, 71, 88, 105, 122, 139, 156, 173, 190, 207, 224, 241, 2,
      0, 0, 0, 0, 4, 0, 0, 0, 0, 0, 0, 0, 0, 0, 191, 54, 88, 94]"
  by (simp add: buffer_from_base64_def js_def sextet_def)

text \<open>Claim C5 as stated fails when a key is given. Every one of the five gateways answers
  the request, with the base64 of an envelope whose tag has one bit flipped. The
  decryption of each answer throws inside the same \<open>try\<close>, the loop goes on to the next
  gateway, and in the end the error of all gateways having failed is thrown, though no
  gateway failed.\<close>

theorem getFromIpfs_answered_not_decrypted_counterexample:
  "answering_net ''AxQlNkdYaXqLnK2+z+DxAgAAAAAEAAAAAAAAAAAAvzZYXg=='' 0 ''https://gw.example/ipfs/QmT''
     = Inr (js ''AxQlNkdYaXqLnK2+z+DxAgAAAAAEAAAAAAAAAAAAvzZYXg=='') \<and>
   answering_net ''AxQlNkdYaXqLnK2+z+DxAgAAAAAEAAAAAAAAAAAAvzZYXg=='' 1 ''https://gateway.pinata.cloud/ipfs/QmT''
     = Inr (js ''AxQlNkdYaXqLnK2+z+DxAgAAAAAEAAAAAAAAAAAAvzZYXg=='') \<and>
   answering_net ''AxQlNkdYaXqLnK2+z+DxAgAAAAAEAAAAAAAAAAAAvzZYXg=='' 2 ''https://cloudflare-ipfs.com/ipfs/QmT''
     = Inr (js ''AxQlNkdYaXqLnK2+z+DxAgAAAAAEAAAAAAAAAAAAvzZYXg=='') \<and>
   answering_net ''AxQlNkdYaXqLnK2+z+DxAgAAAAAEAAAAAAAAAAAAvzZYXg=='' 3 ''https://dweb.link/ipfs/QmT''
     = Inr (js ''AxQlNkdYaXqLnK2+z+DxAgAAAAAEAAAAAAAAAAAAvzZYXg=='') \<and>
   answering_net ''AxQlNkdYaXqLnK2+z+DxAgAAAAAEAAAAAAAAAAAAvzZYXg=='' 4 ''https://ipfs.io/ipfs/QmT''
     = Inr (js ''AxQlNkdYaXqLnK2+z+DxAgAAAAAEAAAAAAAAAAAAvzZYXg=='') \<and>
   getFromIpfs sample_gcm (answering_net ''AxQlNkdYaXqLnK2+z+DxAgAAAAAEAAAAAAAAAAAAvzZYXg=='')
       sample_gateways ''QmT'' (Some sample_key)
     = (Inl (Error ''Failed to retrieve from all IPFS gateways: Unsupported state or unable to authenticate data''),
        [''https://gw.example/ipfs/QmT'', ''https://gateway.pinata.cloud/ipfs/QmT'',
         ''https://cloudflare-ipfs.com/ipfs/QmT'', ''https://dweb.link/ipfs/QmT'',
         ''https://ipfs.io/ipfs/QmT''])"
proof -
  let ?body = "''AxQlNkdYaXqLnK2+z+DxAgAAAAAEAAAAAAAAAAAAvzZYXg==''"
  have k: "sample_key \<noteq> []" by (simp add: sample_key_def)
  have dec: "decode_content sample_gcm (Some sample_key) (js ?body)
      = Inl (Error ''Unsupported state or unable to authenticate data'')"
    using k by (simp add: decode_content_def sample_tampered_base64 sample_open_flipped_tag)
  have ga: "gateway_attempt (answering_net ?body) (decode_content sample_gcm (Some sample_key))
              ''QmT'' log gw
            = (Inl (Error ''Unsupported state or unable to authenticate data''), log @ [gw @ ''QmT''])"
    for log gw
    by (simp add: gateway_attempt_eq answering_net_def dec)
  have "getFromIpfs sample_gcm (answering_net ?body) sample_gateways ''QmT'' (Some sample_key)
     = (Inl (Error ''Failed to retrieve from all IPFS gateways: Unsupported state or unable to authenticate data''),
        [''https://gw.example/ipfs/QmT'', ''https://gateway.pinata.cloud/ipfs/QmT'',
         ''https://cloudflare-ipfs.com/ipfs/QmT'', ''https://dweb.link/ipfs/QmT'',
         ''https://ipfs.io/ipfs/QmT''])"
    by (simp add: getFromIpfs_def sample_gateways_def config_ipfsGateways_def ga)
  then show ?thesis by (simp add: answering_net_def)
qed

section \<open>Connector and manager: proofs\<close>

lemma getFromIpfs_loop_fails:
  assumes ga: "\<And>log gw. gateway_attempt net decode cid log gw = (out (length log) gw, log @ [gw @ cid])"
    and "\<forall>i<length gateways. isl (out (length log + i) (gateways ! i))"
  shows "isl (fst (getFromIpfs_loop net decode cid log gateways lastError))"
  using assms(2)
proof (induction gateways arbitrary: log lastError)
  case Nil
  show ?case by (simp split: option.split)
next
  case (Cons gw gws)
  from Cons.prems have "isl (out (length log + 0) ((gw # gws) ! 0))"
    by blast
  then obtain e0 where e0: "out (length log) gw = Inl e0"
    by (auto simp: isl_def)
  have "\<forall>i<length gws. isl (out (length (log @ [gw @ cid]) + i) (gws ! i))"
  proof (intro allI impI)
    fix i assume "i < length gws"
    then have "Suc i < length (gw # gws)" by simp
    with Cons.prems have "isl (out (length log + Suc i) ((gw # gws) ! Suc i))"
      by blast
    then show "isl (out (length (log @ [gw @ cid]) + i) (gws ! i))" by simp
  qed
  from Cons.IH [OF this, of "Some e0"] e0 show ?case
    by (simp add: ga)
qed

lemma getJobContent_error:
  assumes "contentHash j = Some h" and "isl (fst (getJobContent_try w h))"
  shows "fst (getJobContent w j) = []"
proof -
  obtain r urls where r: "getJobContent_try w h = (r, urls)" by (cases "getJobContent_try w h")
  with assms(2) obtain e where "r = Inl e" by (auto simp: isl_def)
  with r assms(1) show ?thesis by (simp add: getJobContent_def)
qed

lemma isRelevantJob_no_content:
  "isRelevantJob w c j [] =
     (state j = 0 \<and> jid j \<notin> processedJobs c \<and>
      ((title j \<noteq> [] \<and> titleMatches w j) \<or> (tags j \<noteq> [] \<and> tagMatches w j)))"
  by (auto simp: isRelevantJob_def)

text \<open>Claim C10. \<open>getJobContent\<close> has no error result: whatever the body of its
  \<open>try\<close> throws becomes the empty string. It returns the empty string, without any
  request, when the job's content digest is absent, empty or all-zero; it returns the empty
  string when the body throws, and so in particular when every gateway request fails. With
  empty content \<open>isRelevantJob\<close> decides on state, processed set, title and tags
  alone.\<close>

theorem getJobContent_never_raises:
  "(\<not> truthy (contentHash j) \<or> contentHash j = Some zero_hash \<longrightarrow> getJobContent w j = ([], []))
   \<and> (contentHash j = Some h \<and> isl (fst (getJobContent_try w h)) \<longrightarrow> fst (getJobContent w j) = [])
   \<and> (contentHash j = Some h \<and> hashToCid h = Inr cid \<and>
        (\<forall>i<length (config_gateways w). isl (axios_get w i (config_gateways w ! i @ cid)))
        \<longrightarrow> fst (getJobContent w j) = [])
   \<and> isRelevantJob w c j [] =
        (state j = 0 \<and> jid j \<notin> processedJobs c \<and>
         ((title j \<noteq> [] \<and> titleMatches w j) \<or> (tags j \<noteq> [] \<and> tagMatches w j)))"
proof (intro conjI impI)
  assume "\<not> truthy (contentHash j) \<or> contentHash j = Some zero_hash"
  then show "getJobContent w j = ([], [])" by (auto simp: getJobContent_def)
next
  assume "contentHash j = Some h \<and> isl (fst (getJobContent_try w h))"
  then show "fst (getJobContent w j) = []" using getJobContent_error by blast
next
  assume a: "contentHash j = Some h \<and> hashToCid h = Inr cid \<and>
        (\<forall>i<length (config_gateways w). isl (axios_get w i (config_gateways w ! i @ cid)))"
  let ?dec = "decode_content (cipher w) None"
  define out where
    "out = (\<lambda>n gw. case axios_get w n (gw @ cid) of Inl e \<Rightarrow> Inl e | Inr content \<Rightarrow> ?dec content)"
  have ga: "gateway_attempt (axios_get w) ?dec cid log gw = (out (length log) gw, log @ [gw @ cid])"
    for log gw
    by (simp add: gateway_attempt_eq out_def)
  have "\<forall>i<length (config_gateways w).
          isl (out (length ([] :: string list) + i) (config_gateways w ! i))"
  proof (intro allI impI)
    fix i assume "i < length (config_gateways w)"
    with a obtain e where "axios_get w i (config_gateways w ! i @ cid) = Inl e"
      by (auto simp: isl_def)
    then show "isl (out (length ([] :: string list) + i) (config_gateways w ! i))"
      by (simp add: out_def)
  qed
  then have "isl (fst (getFromIpfs_loop (axios_get w) ?dec cid [] (config_gateways w) None))"
    by (rule getFromIpfs_loop_fails [OF ga])
  then have "isl (fst (getJobContent_try w h))"
    using a by (simp add: getJobContent_try_def getFromIpfs_def)
  with a show "fst (getJobContent w j) = []" using getJobContent_error by blast
next
  show "isRelevantJob w c j [] =
        (state j = 0 \<and> jid j \<notin> processedJobs c \<and>
         ((title j \<noteq> [] \<and> titleMatches w j) \<or> (tags j \<noteq> [] \<and> tagMatches w j)))"
    by (rule isRelevantJob_no_content)
qed

text \<open>The spread of a \<open>Result\<close> has no property \<open>roles\<close>: its keys are decimal
  numbers, and \<open>id\<close>.\<close>

lemma decimal_digits: "set (decimal n) \<subseteq> set ''0123456789''"
proof (induction n rule: decimal.induct)
  case (1 n)
  have d: "''0123456789'' ! k \<in> set ''0123456789''" if "k < 10" for k
    using that by (intro nth_mem) simp
  show ?case
  proof (cases "n < 10")
    case True
    then show ?thesis using d [of n] by (subst decimal.simps) simp
  next
    case False
    have "n mod 10 < 10" by simp
    from d [OF this] 1 [OF False] False show ?thesis
      by (subst decimal.simps) simp
  qed
qed

lemma decimal_not_roles: "decimal n \<noteq> ''roles''"
proof
  assume "decimal n = ''roles''"
  then have "CHR ''r'' \<in> set (decimal n)" by simp
  with decimal_digits [of n] show False by auto
qed

lemma map_of_map_set_other: "k' \<noteq> k \<Longrightarrow> map_of (map_set k v m) k' = map_of m k'"
  by (induction m) auto

lemma getJob_of_Result_roles:
  assumes "marketplace_getJob w jobId = Inr (Result components)"
  shows "\<exists>job. getJob w jobId = Inr job \<and> property job ''roles'' = Undefined"
proof -
  let ?ks = "map decimal [0..<length components]"
  have "''roles'' \<notin> set ?ks"
  proof
    assume "''roles'' \<in> set ?ks"
    then obtain i where "decimal i = ''roles''" by auto
    with decimal_not_roles show False by blast
  qed
  then have none: "map_of (zip ?ks (map snd components)) ''roles'' = None"
    by (subst map_of_zip_is_None) simp_all
  have own: "own_properties (Result components) = zip ?ks (map snd components)"
    by (simp add: own_properties_def)
  have "map_of (map_set ''id'' (Number jobId) (zip ?ks (map snd components))) ''roles''
      = map_of (zip ?ks (map snd components)) ''roles''"
    by (rule map_of_map_set_other) simp
  with none have "map_of (map_set ''id'' (Number jobId) (zip ?ks (map snd components))) ''roles'' = None"
    by (simp only:)
  then have "property (map_set ''id'' (Number jobId) (own_properties (Result components))) ''roles''
      = Undefined"
    unfolding own property_def by (simp only: option.case)
  with assms show ?thesis by (simp add: getJob_def)
qed

lemma applyForJob_try_of_Result:
  assumes "marketplace_getJob w jobId = Inr (Result components)"
  shows "applyForJob_try w c jobId applicationMessage
         = (Inl (TypeError ''Cannot read properties of undefined (reading 'creator')''), c)"
proof -
  from getJob_of_Result_roles [OF assms] obtain job where
    "getJob w jobId = Inr job" "property job ''roles'' = Undefined" by blast
  then show ?thesis
    by (simp add: applyForJob_try_def roles_creator_def get_property_def quoted_def)
qed

lemma processJob_try_failed_application:
  assumes "\<And>applicationMessage. applyForJob w (connector_of m) (jid j) applicationMessage = (False, connector_of m)"
  shows "snd (processJob_try w m j) = m"
proof -
  let ?content = "fst (getJobContent w j)"
  show ?thesis
  proof (cases "isRelevantJob w (connector_of m) j ?content")
    case False
    then show ?thesis by (simp add: processJob_try_def)
  next
    case True
    show ?thesis
    proof (cases "findMatchingAgents (agents m) j ?content")
      case (Inl e)
      with True show ?thesis by (simp add: processJob_try_def)
    next
      case (Inr ms)
      show ?thesis
      proof (cases ms)
        case Nil
        with True Inr show ?thesis by (simp add: processJob_try_def)
      next
        case (Cons p others)
        obtain name a where p: "p = (name, a)" by (cases p)
        show ?thesis
        proof (cases "createApplicationMessage a j ?content")
          case (Inl e)
          with True Inr Cons p show ?thesis by (simp add: processJob_try_def)
        next
          case (Inr applicationMessage)
          with True \<open>findMatchingAgents (agents m) j ?content = Inr ms\<close> Cons p
            assms [of applicationMessage]
          show ?thesis by (simp add: processJob_try_def)
        qed
      qed
    qed
  qed
qed

text \<open>Claim C7 does not hold of the code, by a slip in \<open>getJob\<close>. \<open>applyForJob\<close> reads
  \<open>job.roles.creator\<close> on the object \<open>getJob\<close> returned, which is the spread of the
  ledger's \<open>Result\<close> and has the indices and \<open>id\<close> as its only properties. The read
  throws a \<open>TypeError\<close> before the creator's key is looked up, so the error
  \<open>Owner public key not available\<close> is never reached, whether the creator has published
  a key or not. The application fails all the same: \<open>applyForJob\<close> returns \<open>false\<close>
  with the connector as it was (the id is not added to \<open>processedJobs\<close>, no write call is
  made), and \<open>processJob\<close> leaves the whole manager as it was (the job is not added to
  any agent's active jobs).\<close>

theorem applyForJob_throws_before_key_lookup:
  assumes "marketplace_getJob w (jid j) = Inr (Result components)"
  shows "applyForJob_try w c (jid j) applicationMessage
           = (Inl (TypeError ''Cannot read properties of undefined (reading 'creator')''), c)
       \<and> applyForJob w c (jid j) applicationMessage = (False, c)
       \<and> processJob w m j = m"
proof -
  have t: "applyForJob_try w c' (jid j) msg
           = (Inl (TypeError ''Cannot read properties of undefined (reading 'creator')''), c')"
    for c' msg
    by (rule applyForJob_try_of_Result [OF assms])
  then have a: "applyForJob w c' (jid j) msg = (False, c')" for c' msg
    by (simp add: applyForJob_def)
  have "snd (processJob_try w m j) = m"
    by (rule processJob_try_failed_application) (rule a)
  with t a show ?thesis by (simp add: processJob_def)
qed

text \<open>The sample world: the creator of job 7 has published no key.\<close>

theorem applyForJob_throws_before_key_lookup_witness:
  "marketplaceData_publicKeys sample_world ''0x00000000000000000000000000000000000000B2'' = Inr ''0x'' \<and>
   applyForJob_try sample_world sample_connector (jid sample_job) (js ''I can build this'')
     = (Inl (TypeError ''Cannot read properties of undefined (reading 'creator')''), sample_connector) \<and>
   applyForJob sample_world sample_connector (jid sample_job) (js ''I can build this'')
     = (False, sample_connector) \<and>
   processJob sample_world sample_manager sample_job = sample_manager"
proof -
  have 1: "marketplace_getJob sample_world (jid sample_job)
      = Inr (Result
       [(''state'', BigInt 0),
        (''whitelistWorkers'', Boolean False),
        (''roles'', Result [(''creator'', Str ''0x00000000000000000000000000000000000000B2''),
                            (''arbitrator'', Str ''0x0000000000000000000000000000000000000000''),
                            (''worker'', Str ''0x0000000000000000000000000000000000000000'')]),
        (''title'', Str ''Need a Discord bot''),
        (''tags'', Result [([], Str ''discord'')]),
        (''contentHash'', Str ''0x7d5a99f603f231d53a4f39d1521f98d2e8bb279cf29bebfd0687dc98458e7f89''),
        (''multipleApplicants'', Boolean False),
        (''amount'', BigInt 1000000),
        (''token'', Str ''0x00000000000000000000000000000000000000C3''),
        (''timestamp'', BigInt 1700000000),
        (''maxTime'', BigInt 86400),
        (''deliveryMethod'', Str ''ipfs''),
        (''collateralOwed'', BigInt 0),
        (''escrowId'', BigInt 1),
        (''resultHash'', Str zero_hash),
        (''rating'', BigInt 0),
        (''disputed'', Boolean False)])"
    by (simp add: sample_world_def ledger_job_def)
  have 2: "marketplaceData_publicKeys sample_world ''0x00000000000000000000000000000000000000B2'' = Inr ''0x''"
    by (simp add: sample_world_def)
  from applyForJob_throws_before_key_lookup
         [OF 1, of sample_connector "js ''I can build this''" sample_manager] 2
  show ?thesis by blast
qed

text \<open>The sample world again: no gateway answers, and the title of job 7 matches.\<close>

lemma sample_relevant: "isRelevantJob sample_world sample_connector sample_job [] = True"
  by (simp add: isRelevantJob_def sample_job_def sample_connector_def sample_world_def
      titleMatches_def toLowerCase_def js_def)

theorem getJobContent_never_raises_witness:
  "getJobContent sample_world (sample_job\<lparr>contentHash := None\<rparr>) = ([], []) \<and>
   getJobContent sample_world (sample_job\<lparr>contentHash := Some zero_hash\<rparr>) = ([], []) \<and>
   contentHash sample_job = Some ''QmT'' \<and> hashToCid ''QmT'' = Inr ''QmT'' \<and>
   fst (getJobContent sample_world sample_job) = [] \<and>
   isRelevantJob sample_world sample_connector sample_job []"
proof -
  note t1 = getJobContent_never_raises
    [of "sample_job\<lparr>contentHash := None\<rparr>" sample_world "''QmT''" "''QmT''" sample_connector]
  note t2 = getJobContent_never_raises
    [of "sample_job\<lparr>contentHash := Some zero_hash\<rparr>" sample_world "''QmT''" "''QmT''" sample_connector]
  note t3 = getJobContent_never_raises
    [of sample_job sample_world "''QmT''" "''QmT''" sample_connector]
  have a: "getJobContent sample_world (sample_job\<lparr>contentHash := None\<rparr>) = ([], [])"
    using t1 by (simp add: truthy_def)
  have b: "getJobContent sample_world (sample_job\<lparr>contentHash := Some zero_hash\<rparr>) = ([], [])"
    using t2 by simp
  have h: "contentHash sample_job = Some ''QmT''" by (simp add: sample_job_def)
  have cid: "hashToCid ''QmT'' = Inr ''QmT''" by (simp add: hashToCid_def startsWith_def)
  have dead: "\<forall>i<length (config_gateways sample_world).
       isl (axios_get sample_world i (config_gateways sample_world ! i @ ''QmT''))"
    by (simp add: sample_world_def dead_net_def)
  from t3 h cid dead have c: "fst (getJobContent sample_world sample_job) = []" by blast
  from t3 have "isRelevantJob sample_world sample_connector sample_job [] =
        (state sample_job = 0 \<and> jid sample_job \<notin> processedJobs sample_connector \<and>
         ((title sample_job \<noteq> [] \<and> titleMatches sample_world sample_job)
          \<or> (tags sample_job \<noteq> [] \<and> tagMatches sample_world sample_job)))"
    by blast
  with sample_relevant have d: "isRelevantJob sample_world sample_connector sample_job []" by simp
  from a b h cid c d show ?thesis by blast
qed


section \<open>Delivery: proofs\<close>



















section \<open>Session key: proofs\<close>

lemma of_char_byte: "unat (of_nat (of_char c) :: byte) = of_char c"
proof -
  have "(of_char c :: nat) < 256" by (rule nat_of_char_less_256)
  then show ?thesis by (simp only: unat_of_nat) simp
qed

lemma toUtf8Bytes_Cons: "toUtf8Bytes (c # s) = of_nat (of_char c) # toUtf8Bytes s"
  by (simp add: toUtf8Bytes_def)

lemma toUtf8Bytes_Nil: "toUtf8Bytes [] = []"
  by (simp add: toUtf8Bytes_def)

lemma toUtf8Bytes_inj: "toUtf8Bytes s = toUtf8Bytes t \<Longrightarrow> s = t"
proof (induction s arbitrary: t)
  case Nil
  then show ?case by (cases t) (simp_all only: toUtf8Bytes_Cons toUtf8Bytes_Nil list.distinct)
next
  case (Cons c s)
  show ?case
  proof (cases t)
    case Nil
    with Cons.prems show ?thesis by (simp only: toUtf8Bytes_Cons toUtf8Bytes_Nil list.distinct)
  next
    case (Cons d t')
    with Cons.prems have hd: "(of_nat (of_char c) :: byte) = of_nat (of_char d)"
      and tl: "toUtf8Bytes s = toUtf8Bytes t'"
      by (simp_all only: toUtf8Bytes_Cons list.inject)
    from hd have "unat (of_nat (of_char c) :: byte) = unat (of_nat (of_char d) :: byte)"
      by (simp only:)
    then have "(of_char c :: nat) = of_char d" by (simp only: of_char_byte)
    then have "char_of (of_char c :: nat) = char_of (of_char d :: nat)" by (simp only:)
    then have "c = d" by (simp only: char_of_char)
    with Cons.IH [OF tl] Cons show ?thesis by (simp only:)
  qed
qed

text \<open>Claim C1, as the code has it. \<open>getSessionKey\<close> is a function of the wallet, the
  other party's key and the job id: characters 2 to 65 of the wallet's signature over
  \<open>session-key-<jobId>-<otherPublicKey>\<close>, which are 64 characters (32 bytes in hex) when
  the signature has at least 66. Two parties whose verification keys differ sign different
  byte strings.\<close>

theorem getSessionKey_of_signature:
  "getSessionKey wlt otherPublicKey jobId
     = take 64 (drop 2 (signMessage wlt
         (toUtf8Bytes (''session-key-'' @ decimal jobId @ ''-'' @ otherPublicKey))))
   \<and> (66 \<le> length (signMessage wlt (toUtf8Bytes (messageToSign jobId otherPublicKey)))
        \<longrightarrow> length (getSessionKey wlt otherPublicKey jobId) = 64)
   \<and> (keyA \<noteq> keyB
        \<longrightarrow> toUtf8Bytes (messageToSign jobId keyB) \<noteq> toUtf8Bytes (messageToSign jobId keyA))"
proof (intro conjI impI)
  show "getSessionKey wlt otherPublicKey jobId
     = take 64 (drop 2 (signMessage wlt
         (toUtf8Bytes (''session-key-'' @ decimal jobId @ ''-'' @ otherPublicKey))))"
    by (simp add: getSessionKey_def messageToSign_def)
next
  assume "66 \<le> length (signMessage wlt (toUtf8Bytes (messageToSign jobId otherPublicKey)))"
  then show "length (getSessionKey wlt otherPublicKey jobId) = 64"
    by (simp add: getSessionKey_def)
next
  assume ne: "keyA \<noteq> keyB"
  show "toUtf8Bytes (messageToSign jobId keyB) \<noteq> toUtf8Bytes (messageToSign jobId keyA)"
  proof
    assume "toUtf8Bytes (messageToSign jobId keyB) = toUtf8Bytes (messageToSign jobId keyA)"
    then have "messageToSign jobId keyB = messageToSign jobId keyA" by (rule toUtf8Bytes_inj)
    then have "keyB = keyA" by (simp add: messageToSign_def)
    with ne show False by simp
  qed
qed

lemma sample_sign_length: "length (sample_sign secret msg) = 132"
  by (simp add: sample_sign_def to_hex_def length_concat comp_def sum_list_triv)

theorem getSessionKey_of_signature_witness:
  "alice_publicKey \<noteq> bob_publicKey
   \<and> getSessionKey alice bob_publicKey 7
       = take 64 (drop 2 (signMessage alice (toUtf8Bytes ''session-key-7-0x03b2'')))
   \<and> length (getSessionKey alice bob_publicKey 7) = 64
   \<and> toUtf8Bytes (messageToSign 7 bob_publicKey) \<noteq> toUtf8Bytes (messageToSign 7 alice_publicKey)"
proof -
  have k: "alice_publicKey \<noteq> bob_publicKey"
    by (simp add: alice_publicKey_def bob_publicKey_def)
  have l: "66 \<le> length (signMessage alice (toUtf8Bytes (messageToSign 7 bob_publicKey)))"
    by (simp add: alice_def sample_sign_length)
  have d: "''session-key-'' @ decimal 7 @ ''-'' @ bob_publicKey = ''session-key-7-0x03b2''"
    by (simp add: decimal.simps bob_publicKey_def)
  from getSessionKey_of_signature [of alice bob_publicKey 7 alice_publicKey bob_publicKey] k l
  show ?thesis unfolding d by blast
qed

text \<open>Claim C1 as stated fails: two distinct wallets that each derive the key for job 7
  from the other's verification key get different keys.\<close>

theorem getSessionKey_not_symmetric_counterexample:
  "address alice \<noteq> address bob
   \<and> getSessionKey alice bob_publicKey 7 \<noteq> getSessionKey bob alice_publicKey 7"
  by (simp add: getSessionKey_def alice_def bob_def alice_publicKey_def bob_publicKey_def
      messageToSign_def decimal.simps sample_sign_def toUtf8Bytes_def to_hex_def hex_digit_def
      upt_rec)


section \<open>The digest handed to the contract\<close>

text \<open>\<open>ethers.keccak256(ethers.toUtf8Bytes(hash))\<close> run on the locator
  \<open>QmcbgeooPAVwQWkqKAf3vEi53vFyFgFi38iWNYMX9Z7DDV\<close>: the bytes of the locator, the one padded block, its
  lanes, and the twenty-four rounds of the permutation one by one.\<close>

lemma locator_bytes:
  "toUtf8Bytes ''QmcbgeooPAVwQWkqKAf3vEi53vFyFgFi38iWNYMX9Z7DDV'' =
     [81, 109, 99, 98, 103, 101, 111, 111, 80, 65, 86, 119, 81, 87, 107, 113, 75, 65, 102, 51,
      118, 69, 105, 53, 51, 118, 70, 121, 70, 103, 70, 105, 51, 56, 105, 87, 78, 89, 77, 88, 57,
      90, 55, 68, 68, 86]"
  by (simp add: toUtf8Bytes_def)

lemma locator_padded:
  "keccak_pad
     [81, 109, 99, 98, 103, 101, 111, 111, 80, 65, 86, 119, 81, 87, 107, 113, 75, 65, 102, 51,
      118, 69, 105, 53, 51, 118, 70, 121, 70, 103, 70, 105, 51, 56, 105, 87, 78, 89, 77, 88, 57,
      90, 55, 68, 68, 86] =
     [81, 109, 99, 98, 103, 101, 111, 111, 80, 65, 86, 119, 81, 87, 107, 113, 75, 65, 102, 51,
      118, 69, 105, 53, 51, 118, 70, 121, 70, 103, 70, 105, 51, 56, 105, 87, 78, 89, 77, 88, 57,
      90, 55, 68, 68, 86, 1, 0, 0, 0, 0, 0, 0, 0, 0, 0, 0, 0, 0, 0, 0, 0, 0, 0, 0, 0, 0, 0, 0, 0,
      0, 0, 0, 0, 0, 0, 0, 0, 0, 0, 0, 0, 0, 0, 0, 0, 0, 0, 0, 0, 0, 0, 0, 0, 0, 0, 0, 0, 0, 0, 0,
      0, 0, 0, 0, 0, 0, 0, 0, 0, 0, 0, 0, 0, 0, 0, 0, 0, 0, 0, 0, 0, 0, 0, 0, 0, 0, 0, 0, 0, 0, 0,
      0, 0, 0, 128]"
  by code_simp

lemma locator_lanes:
  "lanes_of_block
     [81, 109, 99, 98, 103, 101, 111, 111, 80, 65, 86, 119, 81, 87, 107, 113, 75, 65, 102, 51,
      118, 69, 105, 53, 51, 118, 70, 121, 70, 103, 70, 105, 51, 56, 105, 87, 78, 89, 77, 88, 57,
      90, 55, 68, 68, 86, 1, 0, 0, 0, 0, 0, 0, 0, 0, 0, 0, 0, 0, 0, 0, 0, 0, 0, 0, 0, 0, 0, 0, 0,
      0, 0, 0, 0, 0, 0, 0, 0, 0, 0, 0, 0, 0, 0, 0, 0, 0, 0, 0, 0, 0, 0, 0, 0, 0, 0, 0, 0, 0, 0, 0,
      0, 0, 0, 0, 0, 0, 0, 0, 0, 0, 0, 0, 0, 0, 0, 0, 0, 0, 0, 0, 0, 0, 0, 0, 0, 0, 0, 0, 0, 0, 0,
      0, 0, 0, 128] =
     [8029748155331603793, 8172721956200005968, 3848683730535596363, 7585864174732211763,
      6362840041553213491, 376326178953785, 0, 0, 0, 0, 0, 0, 0, 0, 0, 0, 9223372036854775808]"
  by (simp add: lane_of_bytes_def)

lemma locator_state:
  "xor_lanes (replicate 25 0)
     [8029748155331603793, 8172721956200005968, 3848683730535596363, 7585864174732211763,
      6362840041553213491, 376326178953785, 0, 0, 0, 0, 0, 0, 0, 0, 0, 0, 9223372036854775808] =
     [8029748155331603793, 8172721956200005968, 3848683730535596363, 7585864174732211763,
      6362840041553213491, 376326178953785, 0, 0, 0, 0, 0, 0, 0, 0, 0, 0, 9223372036854775808, 0,
      0, 0, 0, 0, 0, 0, 0]"
  by code_simp

lemma keccak_round_1:
  "keccak_round
     [8029748155331603793, 8172721956200005968, 3848683730535596363, 7585864174732211763,
      6362840041553213491, 376326178953785, 0, 0, 0, 0, 0, 0, 0, 0, 0, 0, 9223372036854775808, 0,
      0, 0, 0, 0, 0, 0, 0]
     1 =
     [9355246980183678948, 11767315233061529177, 15378025154060135854, 12170736128264416383,
      9965178634188672494, 762099502446271775, 1306921798808064418, 1486078398025417009,
      2070764089654239259, 15311299456738751750, 17129112696736533307, 17574865939495341464,
      10415013257282187175, 13406116707560186535, 14984255891869069039, 6040747698404678354,
      15215068665992059758, 15268904852908104726, 11456817622742014769, 11650796081597232188,
      2643532901159746333, 11435763016392606585, 16397241015561389714, 14588343881841176948,
      9561898387312351224]"
  by (simp add: keccak_round_def theta_def theta_C_def theta_D_def theta_apply_def rho_pi_def
      rho_pi_table_def chi_def iota_def rotl64_def upt_rec)

lemma keccak_round_2:
  "keccak_round
     [9355246980183678948, 11767315233061529177, 15378025154060135854, 12170736128264416383,
      9965178634188672494, 762099502446271775, 1306921798808064418, 1486078398025417009,
      2070764089654239259, 15311299456738751750, 17129112696736533307, 17574865939495341464,
      10415013257282187175, 13406116707560186535, 14984255891869069039, 6040747698404678354,
      15215068665992059758, 15268904852908104726, 11456817622742014769, 11650796081597232188,
      2643532901159746333, 11435763016392606585, 16397241015561389714, 14588343881841176948,
      9561898387312351224]
     32898 =
     [3113404613427212045, 17106177975075516983, 7652981170029131028, 3515576782817594285,
      10293789348469944142, 5673310005761476710, 3591510160720191258, 3570214762022959379,
      15317271268533326892, 18041770780156198573, 10406767913256468312, 10232413018722546419,
      17022773252667166278, 16462532716806563476, 9048362308963678481, 7095947853487214941,
      4961436012681030548, 1106108842415224002, 17036115666423722428, 14647063468825215715,
      3532714881278218661, 4614163901741283823, 10301205513476610209, 15669986638087127491,
      3770345317957912625]"
  by (simp add: keccak_round_def theta_def theta_C_def theta_D_def theta_apply_def rho_pi_def
      rho_pi_table_def chi_def iota_def rotl64_def upt_rec)

lemma keccak_round_3:
  "keccak_round
     [3113404613427212045, 17106177975075516983, 7652981170029131028, 3515576782817594285,
      10293789348469944142, 5673310005761476710, 3591510160720191258, 3570214762022959379,
      15317271268533326892, 18041770780156198573, 10406767913256468312, 10232413018722546419,
      17022773252667166278, 16462532716806563476, 9048362308963678481, 7095947853487214941,
      4961436012681030548, 1106108842415224002, 17036115666423722428, 14647063468825215715,
      3532714881278218661, 4614163901741283823, 10301205513476610209, 15669986638087127491,
      3770345317957912625]
     9223372036854808714 =
     [5173162438678238669, 5255523722904863883, 17620890037504923574, 18273271234666578890,
      9198562422813823895, 5070109930008714755, 15805189229614688907, 5081745565875712390,
      14223326190386201579, 1044518666702037018, 15871587019922123368, 2914897782183266338,
      10903063899120725598, 5376120529381645987, 7939235720654012260, 11287245108151824223,
      4964412412813702048, 13736703457726800, 18125492100171372204, 9459854579328032875,
      6183371796612691641, 16976151747080623053, 2549290306530495533, 11087659502570067846,
      657545354676401604]"
  by (simp add: keccak_round_def theta_def theta_C_def theta_D_def theta_apply_def rho_pi_def
      rho_pi_table_def chi_def iota_def rotl64_def upt_rec)

lemma keccak_round_4:
  "keccak_round
     [5173162438678238669, 5255523722904863883, 17620890037504923574, 18273271234666578890,
      9198562422813823895, 5070109930008714755, 15805189229614688907, 5081745565875712390,
      14223326190386201579, 1044518666702037018, 15871587019922123368, 2914897782183266338,
      10903063899120725598, 5376120529381645987, 7939235720654012260, 11287245108151824223,
      4964412412813702048, 13736703457726800, 18125492100171372204, 9459854579328032875,
      6183371796612691641, 16976151747080623053, 2549290306530495533, 11087659502570067846,
      657545354676401604]
     9223372039002292224 =
     [6851443652673241724, 15171215916385340822, 17481530284090985212, 3609403985780986892,
      16482109728134878619, 18025045107439786448, 7994500926677414866, 550315633446695841,
      18246485140256403605, 5061968771772112032, 16572442368248442360, 11163304133883209692,
      16676733741020726911, 10325572277153254112, 4039784939875837573, 1618361980916007561,
      6605932584867446190, 13233295815314313667, 16295531253715802806, 1242106963610938914,
      17589212746855160746, 4314778866766026741, 16924675288227971224, 12823233599033698487,
      14328666943335391999]"
  by (simp add: keccak_round_def theta_def theta_C_def theta_D_def theta_apply_def rho_pi_def
      rho_pi_table_def chi_def iota_def rotl64_def upt_rec)

lemma keccak_round_5:
  "keccak_round
     [6851443652673241724, 15171215916385340822, 17481530284090985212, 3609403985780986892,
      16482109728134878619, 18025045107439786448, 7994500926677414866, 550315633446695841,
      18246485140256403605, 5061968771772112032, 16572442368248442360, 11163304133883209692,
      16676733741020726911, 10325572277153254112, 4039784939875837573, 1618361980916007561,
      6605932584867446190, 13233295815314313667, 16295531253715802806, 1242106963610938914,
      17589212746855160746, 4314778866766026741, 16924675288227971224, 12823233599033698487,
      14328666943335391999]
     32907 =
     [15833530139768413822, 4253057104681969171, 917050143996795492, 12250646776939444629,
      16921818743470499081, 2052894600606049750, 4782084621382793629, 6477695902821367993,
      959335081510662565, 3704788156057706876, 10238142609205474625, 10123111815817114777,
      14285234351504699207, 9999206449025030470, 11386908254630630382, 16251527999119298885,
      9812331535472901902, 12909079217321796185, 3108803671840291359, 594714235016005832,
      5496859979797536467, 6131847119256183118, 13047221919581970220, 11836820643044230773,
      906315870842777804]"
  by (simp add: keccak_round_def theta_def theta_C_def theta_D_def theta_apply_def rho_pi_def
      rho_pi_table_def chi_def iota_def rotl64_def upt_rec)

lemma keccak_round_6:
  "keccak_round
     [15833530139768413822, 4253057104681969171, 917050143996795492, 12250646776939444629,
      16921818743470499081, 2052894600606049750, 4782084621382793629, 6477695902821367993,
      959335081510662565, 3704788156057706876, 10238142609205474625, 10123111815817114777,
      14285234351504699207, 9999206449025030470, 11386908254630630382, 16251527999119298885,
      9812331535472901902, 12909079217321796185, 3108803671840291359, 594714235016005832,
      5496859979797536467, 6131847119256183118, 13047221919581970220, 11836820643044230773,
      906315870842777804]
     2147483649 =
     [14768263333898425934, 13488800882856030754, 11966589072281441920, 16231304270724929145,
      2310641948891232640, 7000852111979864242, 6188126246097754008, 16205407359003427212,
      17714289929252302004, 6615114830837193984, 820192900632440647, 1723955708910558351,
      12605832767397877409, 3621147880467802628, 6828308917857610889, 128372734194380360,
      15589786198256107289, 11872687297550939418, 5380701705431935782, 3928772698620832548,
      15600803723568725710, 1742756278434797664, 922678238679074116, 13468535791939365207,
      5520928159133976459]"
  by (simp add: keccak_round_def theta_def theta_C_def theta_D_def theta_apply_def rho_pi_def
      rho_pi_table_def chi_def iota_def rotl64_def upt_rec)

lemma keccak_round_7:
  "keccak_round
     [14768263333898425934, 13488800882856030754, 11966589072281441920, 16231304270724929145,
      2310641948891232640, 7000852111979864242, 6188126246097754008, 16205407359003427212,
      17714289929252302004, 6615114830837193984, 820192900632440647, 1723955708910558351,
      12605832767397877409, 3621147880467802628, 6828308917857610889, 128372734194380360,
      15589786198256107289, 11872687297550939418, 5380701705431935782, 3928772698620832548,
      15600803723568725710, 1742756278434797664, 922678238679074116, 13468535791939365207,
      5520928159133976459]
     9223372039002292353 =
     [4417796539097132209, 2541785709826463165, 5720100479252705233, 16785598742569128783,
      3652232252254329081, 2656665276319589492, 11489331281222134657, 481857889029307847,
      5114682484231240129, 16732203594456976462, 14842897914155282674, 12877757960948665938,
      7945954651413192016, 17573012743582631871, 16801693767263443035, 5319607615399541876,
      4158934360903057355, 3361168202523301408, 14547555784798742611, 6368212691029839449,
      15901230386227596095, 958459203231903371, 447022092804041916, 5219791237437560961,
      11385984736329891439]"
  by (simp add: keccak_round_def theta_def theta_C_def theta_D_def theta_apply_def rho_pi_def
      rho_pi_table_def chi_def iota_def rotl64_def upt_rec)

lemma keccak_round_8:
  "keccak_round
     [4417796539097132209, 2541785709826463165, 5720100479252705233, 16785598742569128783,
      3652232252254329081, 2656665276319589492, 11489331281222134657, 481857889029307847,
      5114682484231240129, 16732203594456976462, 14842897914155282674, 12877757960948665938,
      7945954651413192016, 17573012743582631871, 16801693767263443035, 5319607615399541876,
      4158934360903057355, 3361168202523301408, 14547555784798742611, 6368212691029839449,
      15901230386227596095, 958459203231903371, 447022092804041916, 5219791237437560961,
      11385984736329891439]
     9223372036854808585 =
     [7954781850513691194, 9598468871095398715, 13851785396216537406, 14819179744257763803,
      10898213556995856848, 17174443854506819279, 11406602581518019856, 7378931363061757218,
      18231834639195978091, 12794983998865645530, 10988950875659134718, 1670999078300339107,
      18240083844060345005, 8184468933497012934, 10117102694754549566, 10612842535662260472,
      17078011716829649530, 11745133265381507618, 717433844430591555, 9992722209739371415,
      4307733825993686346, 15227064334336342840, 15818790430366018073, 8052930440463959184,
      10212617078767774653]"
  by (simp add: keccak_round_def theta_def theta_C_def theta_D_def theta_apply_def rho_pi_def
      rho_pi_table_def chi_def iota_def rotl64_def upt_rec)

lemma keccak_round_9:
  "keccak_round
     [7954781850513691194, 9598468871095398715, 13851785396216537406, 14819179744257763803,
      10898213556995856848, 17174443854506819279, 11406602581518019856, 7378931363061757218,
      18231834639195978091, 12794983998865645530, 10988950875659134718, 1670999078300339107,
      18240083844060345005, 8184468933497012934, 10117102694754549566, 10612842535662260472,
      17078011716829649530, 11745133265381507618, 717433844430591555, 9992722209739371415,
      4307733825993686346, 15227064334336342840, 15818790430366018073, 8052930440463959184,
      10212617078767774653]
     138 =
     [12505260765478575153, 9581907063680737524, 9956768890788368507, 4504452274150311345,
      12030980486829167600, 6073321829657805068, 8516449462548917151, 11209750022570701603,
      11895112060562069306, 3945946693772086576, 14281513903834449717, 6400760701907675586,
      1058331123367792779, 4977991132612155113, 7193493612011970584, 16920134510174186123,
      10583219419838998100, 407991729342524172, 5872702503729097852, 2817415929850392812,
      13769458518470976939, 16889305648817815498, 7772198312554799106, 7219943259626232441,
      15989040291463202372]"
  by (simp add: keccak_round_def theta_def theta_C_def theta_D_def theta_apply_def rho_pi_def
      rho_pi_table_def chi_def iota_def rotl64_def upt_rec)

lemma keccak_round_10:
  "keccak_round
     [12505260765478575153, 9581907063680737524, 9956768890788368507, 4504452274150311345,
      12030980486829167600, 6073321829657805068, 8516449462548917151, 11209750022570701603,
      11895112060562069306, 3945946693772086576, 14281513903834449717, 6400760701907675586,
      1058331123367792779, 4977991132612155113, 7193493612011970584, 16920134510174186123,
      10583219419838998100, 407991729342524172, 5872702503729097852, 2817415929850392812,
      13769458518470976939, 16889305648817815498, 7772198312554799106, 7219943259626232441,
      15989040291463202372]
     136 =
     [2440070457235582628, 10768313194760778693, 11700222460580069031, 115802078888352138,
      9772620622723344494, 11876493372654531930, 14480012512123722510, 6255837457243634974,
      7658731274772597682, 993170264889997147, 1182185441829226692, 10922472517397086199,
      1681017336760145484, 5857209813244763100, 912627507282410249, 13682193632394245860,
      10366146413880038664, 17920879469584993856, 9987649784380289079, 4905685611085106217,
      11791739084007007104, 10872269889241415711, 14428010995145032830, 13020219432777734642,
      9954234894932669822]"
  by (simp add: keccak_round_def theta_def theta_C_def theta_D_def theta_apply_def rho_pi_def
      rho_pi_table_def chi_def iota_def rotl64_def upt_rec)

lemma keccak_round_11:
  "keccak_round
     [2440070457235582628, 10768313194760778693, 11700222460580069031, 115802078888352138,
      9772620622723344494, 11876493372654531930, 14480012512123722510, 6255837457243634974,
      7658731274772597682, 993170264889997147, 1182185441829226692, 10922472517397086199,
      1681017336760145484, 5857209813244763100, 912627507282410249, 13682193632394245860,
      10366146413880038664, 17920879469584993856, 9987649784380289079, 4905685611085106217,
      11791739084007007104, 10872269889241415711, 14428010995145032830, 13020219432777734642,
      9954234894932669822]
     2147516425 =
     [15838229019490080661, 5344839021106076643, 6890839936988224935, 13748871713957764094,
      8439959823536664081, 9751207486378161185, 14407342578673963602, 10804772001570414405,
      10991445296462473321, 12314739980821246616, 12795601861891593221, 2167575700292200609,
      13996889673683042461, 9872451119309960542, 1106467116338314549, 3958533503401587874,
      11028685351942003489, 15751392843424447208, 4646171674601194876, 7419187459623832425,
      10831069771395313211, 3999320690696196855, 11487489263362967075, 8817910234462349891,
      12411015649304524766]"
  by (simp add: keccak_round_def theta_def theta_C_def theta_D_def theta_apply_def rho_pi_def
      rho_pi_table_def chi_def iota_def rotl64_def upt_rec)

lemma keccak_round_12:
  "keccak_round
     [15838229019490080661, 5344839021106076643, 6890839936988224935, 13748871713957764094,
      8439959823536664081, 9751207486378161185, 14407342578673963602, 10804772001570414405,
      10991445296462473321, 12314739980821246616, 12795601861891593221, 2167575700292200609,
      13996889673683042461, 9872451119309960542, 1106467116338314549, 3958533503401587874,
      11028685351942003489, 15751392843424447208, 4646171674601194876, 7419187459623832425,
      10831069771395313211, 3999320690696196855, 11487489263362967075, 8817910234462349891,
      12411015649304524766]
     2147483658 =
     [12452381405171129118, 16718251417239330784, 1935953813919111527, 8821859977299147280,
      8604650625009323105, 14346772963397432810, 16185241916419501850, 9977161813940493591,
      1516632195278735016, 2421231207277991857, 8726764303548019482, 10920604372195971712,
      17667285862366541533, 15427716791114189423, 2471789686154318560, 1914433902491552697,
      1930525189008394809, 15258451224616996354, 4045774453847696031, 13938057091767536554,
      4036125998836650, 7602322321662700018, 15242249125684908883, 6663372693467352677,
      16262659127555591819]"
  by (simp add: keccak_round_def theta_def theta_C_def theta_D_def theta_apply_def rho_pi_def
      rho_pi_table_def chi_def iota_def rotl64_def upt_rec)

lemma keccak_round_13:
  "keccak_round
     [12452381405171129118, 16718251417239330784, 1935953813919111527, 8821859977299147280,
      8604650625009323105, 14346772963397432810, 16185241916419501850, 9977161813940493591,
      1516632195278735016, 2421231207277991857, 8726764303548019482, 10920604372195971712,
      17667285862366541533, 15427716791114189423, 2471789686154318560, 1914433902491552697,
      1930525189008394809, 15258451224616996354, 4045774453847696031, 13938057091767536554,
      4036125998836650, 7602322321662700018, 15242249125684908883, 6663372693467352677,
      16262659127555591819]
     2147516555 =
     [11679301171896447079, 4464177973438896950, 3611039407829464462, 1671459512585220308,
      13746573801608937486, 17882198301229971267, 18021938635794472215, 12608254817047536467,
      12776372871979241195, 3721848595006653547, 13017100243464289226, 1503554605109376891,
      17567498108277241667, 18366547297694299524, 5092089719241193286, 6028636783705016995,
      12885001397569031113, 18312883255944784961, 8278028863014962281, 1981813998885746745,
      6314996915609120550, 18044800491634985304, 1629137191268051731, 1529322322950220272,
      76370008137543494]"
  by (simp add: keccak_round_def theta_def theta_C_def theta_D_def theta_apply_def rho_pi_def
      rho_pi_table_def chi_def iota_def rotl64_def upt_rec)

lemma keccak_round_14:
  "keccak_round
     [11679301171896447079, 4464177973438896950, 3611039407829464462, 1671459512585220308,
      13746573801608937486, 17882198301229971267, 18021938635794472215, 12608254817047536467,
      12776372871979241195, 3721848595006653547, 13017100243464289226, 1503554605109376891,
      17567498108277241667, 18366547297694299524, 5092089719241193286, 6028636783705016995,
      12885001397569031113, 18312883255944784961, 8278028863014962281, 1981813998885746745,
      6314996915609120550, 18044800491634985304, 1629137191268051731, 1529322322950220272,
      76370008137543494]
     9223372036854775947 =
     [9512521342281429793, 13589427928555863504, 15043817864206063902, 17602999526049381974,
      11841706074727428810, 6291557191597083999, 9381112339424590244, 1410192710984358409,
      6586340799427911928, 1618642802452572819, 12726606130313420644, 9137116901636258562,
      8542208313879032043, 14366819373105927416, 11163490698335020998, 16553704964986974952,
      9329057652570920236, 9496839950168397251, 17043772398576537017, 10192046026224547475,
      8455282211025592973, 1101176551657872498, 4599847947738927293, 5733103731629158959,
      8452185043662924504]"
  by (simp add: keccak_round_def theta_def theta_C_def theta_D_def theta_apply_def rho_pi_def
      rho_pi_table_def chi_def iota_def rotl64_def upt_rec)

lemma keccak_round_15:
  "keccak_round
     [9512521342281429793, 13589427928555863504, 15043817864206063902, 17602999526049381974,
      11841706074727428810, 6291557191597083999, 9381112339424590244, 1410192710984358409,
      6586340799427911928, 1618642802452572819, 12726606130313420644, 9137116901636258562,
      8542208313879032043, 14366819373105927416, 11163490698335020998, 16553704964986974952,
      9329057652570920236, 9496839950168397251, 17043772398576537017, 10192046026224547475,
      8455282211025592973, 1101176551657872498, 4599847947738927293, 5733103731629158959,
      8452185043662924504]
     9223372036854808713 =
     [15671349900671209057, 7807078110220256672, 15375853638930788600, 16318485256913599682,
      7641677625674028822, 1463183859672083672, 2576629615454621313, 7133559869190195085,
      1818311833476347753, 11990380177802654595, 11128942330885226591, 15047879077069376690,
      17510182103153560349, 6123486252347404256, 13970579866851068982, 8641819686408757203,
      11436220163264390438, 10275602023274866234, 14528046798158131612, 10157781156573766115,
      17440605246854452015, 14752423396417541352, 14608649009699685007, 11960392189416272874,
      13145141994197492903]"
  by (simp add: keccak_round_def theta_def theta_C_def theta_D_def theta_apply_def rho_pi_def
      rho_pi_table_def chi_def iota_def rotl64_def upt_rec)

lemma keccak_round_16:
  "keccak_round
     [15671349900671209057, 7807078110220256672, 15375853638930788600, 16318485256913599682,
      7641677625674028822, 1463183859672083672, 2576629615454621313, 7133559869190195085,
      1818311833476347753, 11990380177802654595, 11128942330885226591, 15047879077069376690,
      17510182103153560349, 6123486252347404256, 13970579866851068982, 8641819686408757203,
      11436220163264390438, 10275602023274866234, 14528046798158131612, 10157781156573766115,
      17440605246854452015, 14752423396417541352, 14608649009699685007, 11960392189416272874,
      13145141994197492903]
     9223372036854808579 =
     [13718712358964790584, 12777344504156812665, 14639829743317446203, 3335225203988163579,
      12966659897665717439, 17796314201045519371, 4967893017256406210, 12610482231131298841,
      16906736014227418045, 3462138389416170609, 8003271899091809584, 7034838575559753856,
      1830490648670688692, 1555835916422605802, 963285290884609197, 2510813729304929469,
      14918553216226290083, 1151934749923431692, 18344287010626134717, 16485894813369398834,
      12078760268244551666, 16113827031048782522, 1178569927137531999, 8141794212427128963,
      7325833157814668584]"
  by (simp add: keccak_round_def theta_def theta_C_def theta_D_def theta_apply_def rho_pi_def
      rho_pi_table_def chi_def iota_def rotl64_def upt_rec)

lemma keccak_round_17:
  "keccak_round
     [13718712358964790584, 12777344504156812665, 14639829743317446203, 3335225203988163579,
      12966659897665717439, 17796314201045519371, 4967893017256406210, 12610482231131298841,
      16906736014227418045, 3462138389416170609, 8003271899091809584, 7034838575559753856,
      1830490648670688692, 1555835916422605802, 963285290884609197, 2510813729304929469,
      14918553216226290083, 1151934749923431692, 18344287010626134717, 16485894813369398834,
      12078760268244551666, 16113827031048782522, 1178569927137531999, 8141794212427128963,
      7325833157814668584]
     9223372036854808578 =
     [650924504156634143, 1040972104877908452, 17997933733329429133, 2422524963685817903,
      16470318990104518165, 7677932367350524410, 3729040467050933098, 5685306062442935115,
      7408032098455432279, 3755253371554840879, 12565546401593939831, 8144302853414934519,
      7097925622777475052, 10724493098880091070, 1556157814227109311, 98991905975117382,
      314991932728934483, 602661899884109130, 16552769635469306542, 6101775592569966405,
      6843145133075489775, 5505053948981715858, 4814864887115133920, 15545485196285012384,
      7200204753599048162]"
  by (simp add: keccak_round_def theta_def theta_C_def theta_D_def theta_apply_def rho_pi_def
      rho_pi_table_def chi_def iota_def rotl64_def upt_rec)

lemma keccak_round_18:
  "keccak_round
     [650924504156634143, 1040972104877908452, 17997933733329429133, 2422524963685817903,
      16470318990104518165, 7677932367350524410, 3729040467050933098, 5685306062442935115,
      7408032098455432279, 3755253371554840879, 12565546401593939831, 8144302853414934519,
      7097925622777475052, 10724493098880091070, 1556157814227109311, 98991905975117382,
      314991932728934483, 602661899884109130, 16552769635469306542, 6101775592569966405,
      6843145133075489775, 5505053948981715858, 4814864887115133920, 15545485196285012384,
      7200204753599048162]
     9223372036854775936 =
     [3558237327699557773, 11298925898253074362, 16944557456638674784, 11419714598355587799,
      13699340781894069150, 6542765087200999152, 10912422774017299516, 11056452603315564595,
      14306163634427950690, 12797394374571570453, 7264067361511680745, 16091970002897029795,
      8780055899803396502, 13474952776878060445, 16110922968790763251, 4138105620224549931,
      12743646257446909371, 3746682216508503924, 1183195769205285769, 16518699680137638673,
      3433326732544980077, 994326992004117731, 11541835696117754438, 5389588180775938827,
      13966358310112122657]"
  by (simp add: keccak_round_def theta_def theta_C_def theta_D_def theta_apply_def rho_pi_def
      rho_pi_table_def chi_def iota_def rotl64_def upt_rec)

lemma keccak_round_19:
  "keccak_round
     [3558237327699557773, 11298925898253074362, 16944557456638674784, 11419714598355587799,
      13699340781894069150, 6542765087200999152, 10912422774017299516, 11056452603315564595,
      14306163634427950690, 12797394374571570453, 7264067361511680745, 16091970002897029795,
      8780055899803396502, 13474952776878060445, 16110922968790763251, 4138105620224549931,
      12743646257446909371, 3746682216508503924, 1183195769205285769, 16518699680137638673,
      3433326732544980077, 994326992004117731, 11541835696117754438, 5389588180775938827,
      13966358310112122657]
     32778 =
     [575201003386577716, 14873726442633010676, 15975591091614213392, 15822319289826556050,
      15926226661328737973, 11907635720631474460, 7573548644215749072, 14487846192707286226,
      2337915433162377637, 11476390457589540428, 4589122112693213714, 12371305165207230146,
      15698814462748618589, 6390789448330579562, 1105134693776352842, 6986122527137512464,
      3507921645169089568, 7345750547101905241, 1924101427560334681, 7437528630542110448,
      4628037130388055867, 9321210336438777028, 17021142211465703933, 10030973969924111144,
      1241832886871053244]"
  by (simp add: keccak_round_def theta_def theta_C_def theta_D_def theta_apply_def rho_pi_def
      rho_pi_table_def chi_def iota_def rotl64_def upt_rec)

lemma keccak_round_20:
  "keccak_round
     [575201003386577716, 14873726442633010676, 15975591091614213392, 15822319289826556050,
      15926226661328737973, 11907635720631474460, 7573548644215749072, 14487846192707286226,
      2337915433162377637, 11476390457589540428, 4589122112693213714, 12371305165207230146,
      15698814462748618589, 6390789448330579562, 1105134693776352842, 6986122527137512464,
      3507921645169089568, 7345750547101905241, 1924101427560334681, 7437528630542110448,
      4628037130388055867, 9321210336438777028, 17021142211465703933, 10030973969924111144,
      1241832886871053244]
     9223372039002259466 =
     [14313661818289659328, 17125625247880348371, 9056804034472677783, 7846814530210761805,
      8728599634515874821, 5065443821460009100, 6474368887506674271, 12940944429583838823,
      11754633154751264346, 18385456206447929207, 6969663620895963535, 7675004976389853958,
      15417044522849291901, 11206152415613734670, 4297016224963626967, 12698861281430994312,
      831036433941294191, 920412901968099196, 4395964433642462902, 16661531626909511671,
      10119285523750603611, 8254578327515321158, 12479615990470770177, 8054081288689244102,
      16653714932026039822]"
  by (simp add: keccak_round_def theta_def theta_C_def theta_D_def theta_apply_def rho_pi_def
      rho_pi_table_def chi_def iota_def rotl64_def upt_rec)

lemma keccak_round_21:
  "keccak_round
     [14313661818289659328, 17125625247880348371, 9056804034472677783, 7846814530210761805,
      8728599634515874821, 5065443821460009100, 6474368887506674271, 12940944429583838823,
      11754633154751264346, 18385456206447929207, 6969663620895963535, 7675004976389853958,
      15417044522849291901, 11206152415613734670, 4297016224963626967, 12698861281430994312,
      831036433941294191, 920412901968099196, 4395964433642462902, 16661531626909511671,
      10119285523750603611, 8254578327515321158, 12479615990470770177, 8054081288689244102,
      16653714932026039822]
     9223372039002292353 =
     [3461894980136501616, 6574124181065074048, 12218524518104258346, 6465480239736800749,
      7480594111331930720, 5379666725222306118, 6821108961552894387, 10861460213095034088,
      1581208326014320434, 1565188967429135343, 10289536801813391892, 18082094024859334287,
      6892320861835300054, 13633630015994445081, 14063920538751040900, 4002277175431474217,
      15452704020408410153, 11847315767276328938, 1686562865569325334, 5754175259324762609,
      7033987415142636028, 626318641408827216, 17746389847604494472, 15096142947500074898,
      7149499010828591837]"
  by (simp add: keccak_round_def theta_def theta_C_def theta_D_def theta_apply_def rho_pi_def
      rho_pi_table_def chi_def iota_def rotl64_def upt_rec)

lemma keccak_round_22:
  "keccak_round
     [3461894980136501616, 6574124181065074048, 12218524518104258346, 6465480239736800749,
      7480594111331930720, 5379666725222306118, 6821108961552894387, 10861460213095034088,
      1581208326014320434, 1565188967429135343, 10289536801813391892, 18082094024859334287,
      6892320861835300054, 13633630015994445081, 14063920538751040900, 4002277175431474217,
      15452704020408410153, 11847315767276328938, 1686562865569325334, 5754175259324762609,
      7033987415142636028, 626318641408827216, 17746389847604494472, 15096142947500074898,
      7149499010828591837]
     9223372036854808704 =
     [5546262920166463688, 9577058054806188650, 4910604651254143879, 901452869794808037,
      16355195828599006741, 13932070945960549239, 14184797746660012019, 9474905562012581299,
      18267526657500606854, 1088359701814447225, 5477384183523344574, 9490929834520257122,
      3935145271333819496, 11921167036989201448, 7319746058608482219, 4562520404549418916,
      15461231051063524026, 12817916022860699767, 7211529327424324477, 3124482643534547435,
      17001534159052612634, 9641651082469170803, 4340679285850427452, 15398099492442788707,
      4193598690599606287]"
  by (simp add: keccak_round_def theta_def theta_C_def theta_D_def theta_apply_def rho_pi_def
      rho_pi_table_def chi_def iota_def rotl64_def upt_rec)

lemma keccak_round_23:
  "keccak_round
     [5546262920166463688, 9577058054806188650, 4910604651254143879, 901452869794808037,
      16355195828599006741, 13932070945960549239, 14184797746660012019, 9474905562012581299,
      18267526657500606854, 1088359701814447225, 5477384183523344574, 9490929834520257122,
      3935145271333819496, 11921167036989201448, 7319746058608482219, 4562520404549418916,
      15461231051063524026, 12817916022860699767, 7211529327424324477, 3124482643534547435,
      17001534159052612634, 9641651082469170803, 4340679285850427452, 15398099492442788707,
      4193598690599606287]
     2147483649 =
     [15122995061138786223, 154888885789801183, 2679509867503351190, 18324694467738043671,
      5666763564447958312, 16476353782984897971, 11034709195534183609, 2974423416050606039,
      3659006877950015084, 12099450664098326068, 15833423049297562871, 9761867557431036502,
      8896017183342509068, 10118237603217633380, 18180256191458004863, 5433548255675454067,
      13033434873994942717, 4513101627682178315, 4778628047915873800, 9731040719659881533,
      10948786764570115831, 12329678019806183043, 10415076362286338032, 15301861569940360396,
      14692176591295400833]"
  by (simp add: keccak_round_def theta_def theta_C_def theta_D_def theta_apply_def rho_pi_def
      rho_pi_table_def chi_def iota_def rotl64_def upt_rec)

lemma keccak_round_24:
  "keccak_round
     [15122995061138786223, 154888885789801183, 2679509867503351190, 18324694467738043671,
      5666763564447958312, 16476353782984897971, 11034709195534183609, 2974423416050606039,
      3659006877950015084, 12099450664098326068, 15833423049297562871, 9761867557431036502,
      8896017183342509068, 10118237603217633380, 18180256191458004863, 5433548255675454067,
      13033434873994942717, 4513101627682178315, 4778628047915873800, 9731040719659881533,
      10948786764570115831, 12329678019806183043, 10415076362286338032, 15301861569940360396,
      14692176591295400833]
     9223372039002292232 =
     [5673065113433718983, 4353751385784782232, 14235816477154380874, 2526403709098121104,
      13000021656359731305, 4356558388635924690, 2750449058946513086, 817369938506178021,
      11412076630691903374, 11950809961121215205, 3922807029663573935, 10105817411016307585,
      11671538672215195991, 5481307272288254860, 15254854051746425922, 12063981016732286805,
      10893697089562376658, 15984065731222791961, 1672034594798256179, 15329852433174312855,
      16690098989433199378, 15172160296515133862, 10042250257365886861, 11737063087895936215,
      13598182590421219040]"
  by (simp add: keccak_round_def theta_def theta_C_def theta_D_def theta_apply_def rho_pi_def
      rho_pi_table_def chi_def iota_def rotl64_def upt_rec)

lemma locator_permutation:
  "keccak_f
     [8029748155331603793, 8172721956200005968, 3848683730535596363, 7585864174732211763,
      6362840041553213491, 376326178953785, 0, 0, 0, 0, 0, 0, 0, 0, 0, 0, 9223372036854775808, 0,
      0, 0, 0, 0, 0, 0, 0] =
     [5673065113433718983, 4353751385784782232, 14235816477154380874, 2526403709098121104,
      13000021656359731305, 4356558388635924690, 2750449058946513086, 817369938506178021,
      11412076630691903374, 11950809961121215205, 3922807029663573935, 10105817411016307585,
      11671538672215195991, 5481307272288254860, 15254854051746425922, 12063981016732286805,
      10893697089562376658, 15984065731222791961, 1672034594798256179, 15329852433174312855,
      16690098989433199378, 15172160296515133862, 10042250257365886861, 11737063087895936215,
      13598182590421219040]"
  by (simp only: keccak_f_def round_constants_def foldl.simps
      keccak_round_1 keccak_round_2 keccak_round_3 keccak_round_4 keccak_round_5 keccak_round_6
      keccak_round_7 keccak_round_8 keccak_round_9 keccak_round_10 keccak_round_11 keccak_round_12
      keccak_round_13 keccak_round_14 keccak_round_15 keccak_round_16 keccak_round_17 keccak_round_18
      keccak_round_19 keccak_round_20 keccak_round_21 keccak_round_22 keccak_round_23 keccak_round_24)

lemma absorb_one_block:
  assumes "length bs = 136"
  shows "absorb A bs = keccak_f (xor_lanes A (lanes_of_block bs))"
proof -
  have "bs \<noteq> []" using assms by auto
  then show ?thesis using assms
    by (subst absorb.simps) (simp add: absorb.simps [of _ "[]"])
qed

lemma locator_absorbed:
  "absorb (replicate 25 0)
     [81, 109, 99, 98, 103, 101, 111, 111, 80, 65, 86, 119, 81, 87, 107, 113, 75, 65, 102, 51,
      118, 69, 105, 53, 51, 118, 70, 121, 70, 103, 70, 105, 51, 56, 105, 87, 78, 89, 77, 88, 57,
      90, 55, 68, 68, 86, 1, 0, 0, 0, 0, 0, 0, 0, 0, 0, 0, 0, 0, 0, 0, 0, 0, 0, 0, 0, 0, 0, 0, 0,
      0, 0, 0, 0, 0, 0, 0, 0, 0, 0, 0, 0, 0, 0, 0, 0, 0, 0, 0, 0, 0, 0, 0, 0, 0, 0, 0, 0, 0, 0, 0,
      0, 0, 0, 0, 0, 0, 0, 0, 0, 0, 0, 0, 0, 0, 0, 0, 0, 0, 0, 0, 0, 0, 0, 0, 0, 0, 0, 0, 0, 0, 0,
      0, 0, 0, 128] =
     [5673065113433718983, 4353751385784782232, 14235816477154380874, 2526403709098121104,
      13000021656359731305, 4356558388635924690, 2750449058946513086, 817369938506178021,
      11412076630691903374, 11950809961121215205, 3922807029663573935, 10105817411016307585,
      11671538672215195991, 5481307272288254860, 15254854051746425922, 12063981016732286805,
      10893697089562376658, 15984065731222791961, 1672034594798256179, 15329852433174312855,
      16690098989433199378, 15172160296515133862, 10042250257365886861, 11737063087895936215,
      13598182590421219040]"
proof -
  have len: "length
       ([81, 109, 99, 98, 103, 101, 111, 111, 80, 65, 86, 119, 81, 87, 107, 113, 75, 65, 102, 51,
        118, 69, 105, 53, 51, 118, 70, 121, 70, 103, 70, 105, 51, 56, 105, 87, 78, 89, 77, 88, 57,
        90, 55, 68, 68, 86, 1, 0, 0, 0, 0, 0, 0, 0, 0, 0, 0, 0, 0, 0, 0, 0, 0, 0, 0, 0, 0, 0, 0,
        0, 0, 0, 0, 0, 0, 0, 0, 0, 0, 0, 0, 0, 0, 0, 0, 0, 0, 0, 0, 0, 0, 0, 0, 0, 0, 0, 0, 0, 0,
        0, 0, 0, 0, 0, 0, 0, 0, 0, 0, 0, 0, 0, 0, 0, 0, 0, 0, 0, 0, 0, 0, 0, 0, 0, 0, 0, 0, 0, 0,
        0, 0, 0, 0, 0, 0, 128] :: byte list) = 136"
    by simp
  show ?thesis
    unfolding absorb_one_block [OF len] locator_lanes locator_state locator_permutation
    by (rule refl)
qed

lemma locator_squeezed:
  "take 32 (concat (map bytes_of_lane
     [5673065113433718983, 4353751385784782232, 14235816477154380874, 2526403709098121104,
      13000021656359731305, 4356558388635924690, 2750449058946513086, 817369938506178021,
      11412076630691903374, 11950809961121215205, 3922807029663573935, 10105817411016307585,
      11671538672215195991, 5481307272288254860, 15254854051746425922, 12063981016732286805,
      10893697089562376658, 15984065731222791961, 1672034594798256179, 15329852433174312855,
      16690098989433199378, 15172160296515133862, 10042250257365886861, 11737063087895936215,
      13598182590421219040])) =
     [199, 192, 224, 217, 169, 198, 186, 78, 152, 13, 17, 118, 209, 161, 107, 60, 74, 140, 112,
      80, 169, 199, 143, 197, 144, 215, 5, 184, 201, 150, 15, 35]"
  by (simp add: bytes_of_lane_def upt_rec)

lemma locator_keccak256:
  "ethers_keccak256 (toUtf8Bytes ''QmcbgeooPAVwQWkqKAf3vEi53vFyFgFi38iWNYMX9Z7DDV'') =
     ''0xc7c0e0d9a9c6ba4e980d1176d1a16b3c4a8c7050a9c78fc590d705b8c9960f23''"
  unfolding ethers_keccak256_def keccak256_bytes_def locator_bytes locator_padded
    locator_absorbed locator_squeezed
  by (simp add: to_hex_def hex_digit_def)

lemma digest_multihash:
  "multihash_encode (buffer_from_hex ''c7c0e0d9a9c6ba4e980d1176d1a16b3c4a8c7050a9c78fc590d705b8c9960f23'') =
     [18, 32, 199, 192, 224, 217, 169, 198, 186, 78, 152, 13, 17, 118, 209, 161, 107, 60, 74, 140,
      112, 80, 169, 199, 143, 197, 144, 215, 5, 184, 201, 150, 15, 35]"
  by (simp add: multihash_encode_def sha2_256_code_def varint.simps hex_val_def)

lemma digest_number:
  "nat_of_bytes
     [18, 32, 199, 192, 224, 217, 169, 198, 186, 78, 152, 13, 17, 118, 209, 161, 107, 60, 74, 140,
      112, 80, 169, 199, 143, 197, 144, 215, 5, 184, 201, 150, 15, 35] =
     537365645104511023863456311174763446805312232647902073344720021899233007467106083"
  by (simp add: nat_of_bytes_def)

lemma digest_base58:
  "digits58
     537365645104511023863456311174763446805312232647902073344720021899233007467106083 =
     [23, 44, 34, 45, 23, 24, 31, 25, 48, 2, 43, 47, 10, 21, 3, 45, 57, 38, 30, 49, 18, 48, 17,
      23, 34, 0, 16, 35, 4, 43, 10, 6, 8, 32, 14, 56, 55, 6, 38, 12, 30, 57, 19, 20, 0, 11]"
  by (simp add: digits58.simps)

lemma hashToCid_0x:
  assumes "\<not> startsWith h ''Qm''"
  shows "hashToCid (''0x'' @ h) = Inr (bs58_encode (multihash_encode (buffer_from_hex h)))"
  using assms by (simp add: hashToCid_def startsWith_def)

lemma digest_locator:
  "hashToCid ''0xc7c0e0d9a9c6ba4e980d1176d1a16b3c4a8c7050a9c78fc590d705b8c9960f23'' =
     Inr ''QmbnQRYSq3kpBN4nzfXrKqJQb1Hc5kB79ZFyx7fDXzLM1C''"
proof -
  have "hashToCid (''0x'' @ ''c7c0e0d9a9c6ba4e980d1176d1a16b3c4a8c7050a9c78fc590d705b8c9960f23'') =
      Inr (bs58_encode (multihash_encode (buffer_from_hex
        ''c7c0e0d9a9c6ba4e980d1176d1a16b3c4a8c7050a9c78fc590d705b8c9960f23'')))"
    by (rule hashToCid_0x) (simp add: startsWith_def)
  then show ?thesis
    unfolding digest_multihash bs58_encode_def digest_number digest_base58
    by (simp add: bs58_alphabet_def)
qed

text \<open>Claim C2 does not hold of the code. What \<open>applyForJob\<close> hands to the contract as
  the digest of what it published at the locator \<open>hash\<close> is the Keccak-256 of the text of
  that locator. \<open>hashToCid\<close>, which is how a reader gets from a recorded digest to a
  locator, takes its argument for the SHA-256 digest inside the locator. For the locator
  \<open>QmcbgeooPAVwQWkqKAf3vEi53vFyFgFi38iWNYMX9Z7DDV\<close> the recorded value is
  \<open>0xc7c0e0d9a9c6ba4e980d1176d1a16b3c4a8c7050a9c78fc590d705b8c9960f23\<close>, and \<open>hashToCid\<close> of it is the
  locator \<open>QmbnQRYSq3kpBN4nzfXrKqJQb1Hc5kB79ZFyx7fDXzLM1C\<close>: another one, at which nothing was
  stored.\<close>

theorem recorded_digest_names_other_locator:
  "contentHashBytes ''QmcbgeooPAVwQWkqKAf3vEi53vFyFgFi38iWNYMX9Z7DDV''
     = ''0xc7c0e0d9a9c6ba4e980d1176d1a16b3c4a8c7050a9c78fc590d705b8c9960f23'' \<and>
   hashToCid (contentHashBytes ''QmcbgeooPAVwQWkqKAf3vEi53vFyFgFi38iWNYMX9Z7DDV'')
     = Inr ''QmbnQRYSq3kpBN4nzfXrKqJQb1Hc5kB79ZFyx7fDXzLM1C''"
  by (simp add: contentHashBytes_def locator_keccak256 digest_locator)

end
